theory Spec2Isabelle
  imports Complex_Main
begin

section \<open>Python values\<close>

text \<open>
  A Python \<open>str\<close> is a sequence of Unicode code points, and \<open>len\<close> and slicing count
  code points. A string is therefore a list of code points; ASCII literals of the source
  are written through \<open>of_ascii\<close>. Python floats are modelled by real numbers: the
  arithmetic of the source (\<open>1 - d / 2\<close>, differences of clock readings, \<open>round\<close>) is
  taken exactly, without binary rounding.
\<close>

type_synonym pystr = "nat list"

definition of_ascii :: "string \<Rightarrow> pystr" where
  "of_ascii s = map of_char s"

text \<open>The exceptions the modelled code raises or lets through.\<close>

datatype py_error =
    ClientError pystr  \<comment> \<open>botocore's ClientError, with \<open>e.response['Error']['Code']\<close>\<close>
  | ValueError pystr
  | KeyError pystr
  | OtherError pystr   \<comment> \<open>any other exception raised by a backend call\<close>

text \<open>Python's \<open>x or d\<close> for an optional number: \<open>None\<close> and zero are falsy.\<close>

definition py_or :: "'a::zero option \<Rightarrow> 'a \<Rightarrow> 'a" where
  "py_or x d = (case x of None \<Rightarrow> d | Some v \<Rightarrow> if v = 0 then d else v)"

text \<open>
  Python's \<open>round(x, n)\<close> on the real value: the nearest multiple of \<open>10^-n\<close>, a tie
  going to the even multiple.
\<close>

definition py_round :: "real \<Rightarrow> nat \<Rightarrow> real" where
  "py_round x n =
     (let y = x * 10 ^ n; f = \<lfloor>y\<rfloor>; d = y - of_int f
      in of_int (if d < 1 / 2 then f else if 1 / 2 < d then f + 1
                 else if even f then f else f + 1) / 10 ^ n)"

section \<open>The clock and the traces of one run\<close>

text \<open>
  \<open>ticks\<close> counts the clock readings taken so far; the three traces record, in order,
  the arguments of every call of the Embedding Generator, the Vector Index Gateway's
  query and the Answer Generator. Logging and telemetry have no effect on any returned
  value and are left out.
\<close>

record metadata =
  md_source :: "pystr option"
  md_chunk_index :: "int option"
  md_source_text :: "pystr option"

record search_call =
  sc_top_k :: int
  sc_threshold :: real
  sc_filter :: "(pystr \<times> pystr) list option"

record world =
  ticks :: nat
  embed_calls :: "pystr list"
  search_calls :: "search_call list"
  answer_calls :: "(pystr \<times> pystr) list"

section \<open>Vector Index Gateway: query\<close>

text \<open>One element of \<open>response["vectors"]\<close>; a field that the response omits is \<open>None\<close>.\<close>

record vector =
  key :: "pystr option"
  distance :: "real option"
  v_metadata :: "metadata option"

record query_response =
  vectors :: "vector list option"

record query_params =
  vectorBucketName :: pystr
  indexName :: pystr
  queryVector :: "real list"
  topK :: int
  returnDistance :: bool
  returnMetadata :: bool
  filter_param :: "(pystr \<times> pystr) list option"

record match =
  ident :: pystr
  score :: real
  m_metadata :: metadata

record S3VectorClient =
  bucket_name :: pystr
  index_name :: pystr
  max_retries :: nat
  retry_delay :: real

definition new_S3VectorClient :: "pystr \<Rightarrow> pystr \<Rightarrow> pystr \<Rightarrow> S3VectorClient" where
  "new_S3VectorClient region bucket index =
     \<lparr>bucket_name = bucket, index_name = index, max_retries = 3, retry_delay = 1\<rparr>"

text \<open>
  The collaborators of one run: the wall clock (\<open>clock n\<close> is the \<open>n\<close>-th reading of
  \<open>time.time()\<close>, \<open>utc_iso n\<close> the ISO timestamp read at tick \<open>n\<close>), numpy's coercion to
  32-bit floats, and the backends, each answering with a response or raising.
\<close>

record embed_body =
  embedding :: "real list option"

record content_block =
  block_type :: "pystr option"
  block_text :: "pystr option"

record usage =
  input_tokens :: "int option"
  output_tokens :: "int option"

record llm_body =
  content :: "content_block list option"
  stop_reason :: "pystr option"
  usage_field :: "usage option"

record llm_request =
  modelId :: pystr
  req_max_tokens :: int
  req_temperature :: real
  req_prompt :: pystr

record env =
  clock :: "nat \<Rightarrow> real"
  utc_iso :: "nat \<Rightarrow> pystr"
  float32 :: "real \<Rightarrow> real"
  invoke_embed :: "pystr \<Rightarrow> pystr \<Rightarrow> py_error + embed_body"
  invoke_llm :: "llm_request \<Rightarrow> py_error + llm_body"
  s3_query :: "query_params \<Rightarrow> py_error + query_response"

definition time_time :: "env \<Rightarrow> world \<Rightarrow> real \<times> world" where
  "time_time e w = (clock e (ticks w), w\<lparr>ticks := Suc (ticks w)\<rparr>)"

definition utc_now :: "env \<Rightarrow> world \<Rightarrow> pystr \<times> world" where
  "utc_now e w = (utc_iso e (ticks w), w\<lparr>ticks := Suc (ticks w)\<rparr>)"

definition is_ClientError :: "py_error \<Rightarrow> bool" where
  "is_ClientError e = (case e of ClientError c \<Rightarrow> True | _ \<Rightarrow> False)"

text \<open>\<open>similarity_score = 1 - (distance / 2)\<close>\<close>

definition similarity_score :: "real \<Rightarrow> real" where
  "similarity_score d = 1 - d / 2"

text \<open>
  The result loop of \<open>query_vectors\<close>: \<open>vector.get("distance", 0)\<close>, the threshold test,
  \<open>vector["key"]\<close> (a KeyError when the key is absent) and
  \<open>vector.get("metadata", {})\<close>; \<open>matches\<close> grows in the order received.
\<close>

definition empty_metadata :: metadata where
  "empty_metadata = \<lparr>md_source = None, md_chunk_index = None, md_source_text = None\<rparr>"

fun process_vectors :: "real \<Rightarrow> vector list \<Rightarrow> match list \<Rightarrow> py_error + match list" where
  "process_vectors similarity_threshold [] matches = Inr matches"
| "process_vectors similarity_threshold (v # vs) matches =
     (let d = (case distance v of None \<Rightarrow> 0 | Some x \<Rightarrow> x);
          s = similarity_score d
      in if s \<ge> similarity_threshold
         then (case key v of
                 None \<Rightarrow> Inl (KeyError (of_ascii ''key''))
               | Some k \<Rightarrow>
                   process_vectors similarity_threshold vs
                     (matches @ [\<lparr>ident = k, score = s,
                                  m_metadata = (case v_metadata v of None \<Rightarrow> empty_metadata
                                                | Some m \<Rightarrow> m)\<rparr>]))
         else process_vectors similarity_threshold vs matches)"

definition query_params_of ::
  "S3VectorClient \<Rightarrow> env \<Rightarrow> real list \<Rightarrow> int \<Rightarrow> (pystr \<times> pystr) list option \<Rightarrow> query_params" where
  "query_params_of c e query_embedding top_k filter_dict =
     \<lparr>vectorBucketName = bucket_name c, indexName = index_name c,
      queryVector = map (float32 e) query_embedding, topK = top_k,
      returnDistance = True, returnMetadata = True,
      filter_param = (case filter_dict of None \<Rightarrow> None | Some [] \<Rightarrow> None
                      | Some (x # xs) \<Rightarrow> Some (x # xs))\<rparr>"

definition query_vectors ::
  "S3VectorClient \<Rightarrow> env \<Rightarrow> world \<Rightarrow> real list \<Rightarrow> int \<Rightarrow> (pystr \<times> pystr) list option
     \<Rightarrow> real \<Rightarrow> (py_error + match list) \<times> world" where
  "query_vectors c e w query_embedding top_k filter_dict similarity_threshold =
     (let w0 = w\<lparr>search_calls := search_calls w @
                   [\<lparr>sc_top_k = top_k, sc_threshold = similarity_threshold,
                     sc_filter = filter_dict\<rparr>]\<rparr>;
          params = query_params_of c e query_embedding top_k filter_dict;
          (start_time, w1) = time_time e w0
      in case s3_query e params of
           Inl err \<Rightarrow>
             (if is_ClientError err
              then (let (t, w2) = time_time e w1 in (Inl err, w2))
              else (Inl err, w1))
         | Inr response \<Rightarrow>
             (let (t1, w2) = time_time e w1;
                  (t2, w3) = time_time e w2;
                  (processing_start, w4) = time_time e w3
              in case process_vectors similarity_threshold
                        (case vectors response of None \<Rightarrow> [] | Some vs \<Rightarrow> vs) [] of
                   Inl err \<Rightarrow> (Inl err, w4)
                 | Inr matches \<Rightarrow>
                     (let (t3, w5) = time_time e w4 in (Inr matches, w5))))"


section \<open>Vector Index Gateway: upsert\<close>

text \<open>
  The state of the index backend as \<open>upsert_vectors\<close> sees it: the batches handed to
  \<open>put_vectors\<close> so far, one entry per call, and the arguments of every \<open>time.sleep\<close>.
  The backend answers the \<open>n\<close>-th call (counted from 0) on batch \<open>b\<close> with
  \<open>put n b\<close>: \<open>None\<close> when the call returns, the exception otherwise. The clock
  readings of \<open>upsert_vectors\<close> feed span events only and are left out.
\<close>

record 'm input_vector =
  vec_id :: pystr
  vec_values :: "real list"
  vec_metadata :: 'm

record 'm put_vector =
  put_key :: pystr
  put_data :: "real list"
  put_metadata :: 'm

record 'm s3_state =
  put_calls :: "'m put_vector list list"
  sleeps :: "real list"

definition TooManyRequestsException :: pystr where
  "TooManyRequestsException = of_ascii ''TooManyRequestsException''"

definition format_vector :: "(real \<Rightarrow> real) \<Rightarrow> 'm input_vector \<Rightarrow> 'm put_vector" where
  "format_vector f32 v =
     \<lparr>put_key = vec_id v, put_data = map f32 (vec_values v), put_metadata = vec_metadata v\<rparr>"

definition batch_size :: nat where
  "batch_size = 500"

text \<open>
  \<open>for attempt in range(self.max_retries)\<close> for one batch, entered at \<open>attempt\<close>. A
  returning put adds the batch to \<open>total_uploaded\<close> and breaks; a ClientError with code
  TooManyRequestsException sleeps and goes on while \<open>attempt < max_retries - 1\<close> and is
  raised otherwise; any other exception is raised. A range that runs out without a break
  leaves \<open>total_uploaded\<close> as it is.
\<close>

function put_with_retry ::
  "S3VectorClient \<Rightarrow> (nat \<Rightarrow> 'm put_vector list \<Rightarrow> py_error option) \<Rightarrow> 'm put_vector list
     \<Rightarrow> nat \<Rightarrow> nat \<Rightarrow> 'm s3_state \<Rightarrow> (py_error + nat) \<times> 'm s3_state" where
  "put_with_retry c put batch attempt total_uploaded st =
     (if attempt < max_retries c then
        (let st1 = st\<lparr>put_calls := put_calls st @ [batch]\<rparr>
         in case put (length (put_calls st)) batch of
              None \<Rightarrow> (Inr (total_uploaded + length batch), st1)
            | Some err \<Rightarrow>
                (if err = ClientError TooManyRequestsException then
                   (if int attempt < int (max_retries c) - 1 then
                      put_with_retry c put batch (attempt + 1) total_uploaded
                        (st1\<lparr>sleeps := sleeps st1 @ [retry_delay c * 2 ^ attempt]\<rparr>)
                    else (Inl err, st1))
                 else (Inl err, st1)))
      else (Inr total_uploaded, st))"
  by pat_completeness auto
termination
  by (relation "measure (\<lambda>(c, put, batch, attempt, total_uploaded, st). max_retries c - attempt)")
     auto

declare put_with_retry.simps [simp del]

text \<open>\<open>for i in range(0, len(formatted_vectors), batch_size)\<close>, entered at index \<open>i\<close>.\<close>

function upsert_batches ::
  "S3VectorClient \<Rightarrow> (nat \<Rightarrow> 'm put_vector list \<Rightarrow> py_error option) \<Rightarrow> 'm put_vector list
     \<Rightarrow> nat \<Rightarrow> nat \<Rightarrow> 'm s3_state \<Rightarrow> (py_error + nat) \<times> 'm s3_state" where
  "upsert_batches c put formatted_vectors i total_uploaded st =
     (if i < length formatted_vectors then
        (let batch = take batch_size (drop i formatted_vectors)
         in case put_with_retry c put batch 0 total_uploaded st of
              (Inl err, st1) \<Rightarrow> (Inl err, st1)
            | (Inr total1, st1) \<Rightarrow>
                upsert_batches c put formatted_vectors (i + batch_size) total1 st1)
      else (Inr total_uploaded, st))"
  by pat_completeness auto
termination
  by (relation "measure (\<lambda>(c, put, fv, i, total_uploaded, st). length fv - i)")
     (auto simp: batch_size_def)

declare upsert_batches.simps [simp del]

definition upsert_vectors ::
  "S3VectorClient \<Rightarrow> (real \<Rightarrow> real) \<Rightarrow> (nat \<Rightarrow> 'm put_vector list \<Rightarrow> py_error option)
     \<Rightarrow> 'm input_vector list \<Rightarrow> 'm s3_state \<Rightarrow> (py_error + nat) \<times> 'm s3_state" where
  "upsert_vectors c f32 put vs st =
     upsert_batches c put (map (format_vector f32) vs) 0 0 st"

section \<open>Embedding Generator and Answer Generator\<close>

record Settings =
  aws_region :: pystr
  s3_vector_bucket_name :: pystr
  s3_vector_index_name :: pystr
  embed_model_id :: pystr
  llm_model_id :: pystr
  top_k :: int
  similarity_threshold :: real
  max_tokens :: int
  temperature :: real

definition generate_embedding ::
  "Settings \<Rightarrow> env \<Rightarrow> world \<Rightarrow> pystr \<Rightarrow> (py_error + real list) \<times> world" where
  "generate_embedding s e w text =
     (let w0 = w\<lparr>embed_calls := embed_calls w @ [text]\<rparr>;
          (start_time, w1) = time_time e w0
      in case invoke_embed e (embed_model_id s) text of
           Inl err \<Rightarrow>
             (if is_ClientError err
              then (let (t, w2) = time_time e w1 in (Inl err, w2))
              else (Inl err, w1))
         | Inr response_body \<Rightarrow>
             (case embedding response_body of
                None \<Rightarrow> (Inl (KeyError (of_ascii ''embedding'')), w1)
              | Some emb \<Rightarrow>
                  (let (t1, w2) = time_time e w1;
                       (t2, w3) = time_time e w2
                   in (Inr emb, w3))))"

text \<open>\<open>str.strip()\<close> removes the code points for which \<open>str.isspace\<close> holds.\<close>

definition py_isspace :: "nat \<Rightarrow> bool" where
  "py_isspace n =
     ((9 \<le> n \<and> n \<le> 13) \<or> (28 \<le> n \<and> n \<le> 32) \<or> n = 133 \<or> n = 160 \<or> n = 5760 \<or>
      (8192 \<le> n \<and> n \<le> 8202) \<or> n = 8232 \<or> n = 8233 \<or> n = 8239 \<or> n = 8287 \<or> n = 12288)"

definition py_strip :: "pystr \<Rightarrow> pystr" where
  "py_strip s = rev (dropWhile py_isspace (rev (dropWhile py_isspace s)))"

definition make_prompt :: "pystr \<Rightarrow> pystr \<Rightarrow> pystr" where
  "make_prompt q context =
     of_ascii ''You are a helpful assistant. Use the context below to answer the question. '' @
     of_ascii ''If the context doesn'' @ [39] @
     of_ascii ''t contain enough information, say so clearly.'' @
     of_ascii ''When answering a question, be concise and to the point.'' @
     of_ascii ''For off topic questions, respond with '' @ [39] @ of_ascii ''I'' @ [39] @
     of_ascii ''m sorry, I can'' @ [39] @ of_ascii ''t help with that.'' @ [39, 10, 10] @
     of_ascii ''Context:'' @ [10] @ context @ [10, 10] @
     of_ascii ''Question: '' @ q @ [10, 10] @
     of_ascii ''Answer:''"

definition generate_answer ::
  "Settings \<Rightarrow> env \<Rightarrow> world \<Rightarrow> pystr \<Rightarrow> pystr \<Rightarrow> (py_error + pystr) \<times> world" where
  "generate_answer s e w q context =
     (let w0 = w\<lparr>answer_calls := answer_calls w @ [(q, context)]\<rparr>;
          prompt = make_prompt q context;
          (start_time, w1) = time_time e w0
      in case invoke_llm e \<lparr>modelId = llm_model_id s, req_max_tokens = max_tokens s,
                             req_temperature = temperature s, req_prompt = prompt\<rparr> of
           Inl err \<Rightarrow>
             (if is_ClientError err
              then (let (t, w2) = time_time e w1 in (Inl err, w2))
              else (Inl err, w1))
         | Inr response_body \<Rightarrow>
             (case content response_body of
                None \<Rightarrow> (Inl (ValueError (of_ascii ''Unexpected response format'')), w1)
              | Some [] \<Rightarrow> (Inl (ValueError (of_ascii ''Unexpected response format'')), w1)
              | Some (b # bs) \<Rightarrow>
                  (case block_text b of
                     None \<Rightarrow> (Inl (KeyError (of_ascii ''text'')), w1)
                   | Some t \<Rightarrow>
                       (let answer = py_strip t;
                            (t1, w2) = time_time e w1;
                            (t2, w3) = time_time e w2
                        in (Inr answer, w3)))))"

section \<open>Query Orchestrator\<close>

record RAGService =
  settings :: Settings
  vector_client :: S3VectorClient

definition new_RAGService :: "Settings \<Rightarrow> RAGService" where
  "new_RAGService s =
     \<lparr>settings = s,
      vector_client = new_S3VectorClient (aws_region s) (s3_vector_bucket_name s)
                        (s3_vector_index_name s)\<rparr>"

definition search_similar_chunks ::
  "RAGService \<Rightarrow> env \<Rightarrow> world \<Rightarrow> real list \<Rightarrow> int \<Rightarrow> real \<Rightarrow> (pystr \<times> pystr) list option
     \<Rightarrow> (py_error + match list) \<times> world" where
  "search_similar_chunks svc e w query_embedding k threshold filter_dict =
     query_vectors (vector_client svc) e w query_embedding k filter_dict threshold"

record source =
  src_source :: pystr
  src_chunk_index :: int
  src_similarity_score :: real
  src_text_preview :: pystr

record breakdown =
  embedding_ms :: real
  vector_search_ms :: real
  llm_generation_ms :: real
  total_ms :: real

record query_result =
  answer :: pystr
  query :: pystr
  sources :: "source list"
  processing_time_ms :: real
  chunks_found :: nat
  timestamp :: pystr
  performance_breakdown :: "breakdown option"

text \<open>\<open>str(n)\<close> for a natural number, and \<open>sep.join(parts)\<close>.\<close>

fun str_nat :: "nat \<Rightarrow> pystr" where
  "str_nat n = (if n < 10 then [48 + n] else str_nat (n div 10) @ [48 + n mod 10])"

declare str_nat.simps [simp del]

fun py_join :: "pystr \<Rightarrow> pystr list \<Rightarrow> pystr" where
  "py_join sep [] = []"
| "py_join sep [x] = x"
| "py_join sep (x # y # ys) = x @ sep @ py_join sep (y # ys)"

definition chunk_text_of :: "match \<Rightarrow> pystr" where
  "chunk_text_of m = (case md_source_text (m_metadata m) of None \<Rightarrow> [] | Some t \<Rightarrow> t)"

text \<open>The dictionary appended to \<open>sources\<close> for one match.\<close>

definition source_entry :: "match \<Rightarrow> source" where
  "source_entry m =
     (let chunk_text = chunk_text_of m
      in \<lparr>src_source = (case md_source (m_metadata m) of None \<Rightarrow> of_ascii ''Unknown''
                        | Some s \<Rightarrow> s),
          src_chunk_index = (case md_chunk_index (m_metadata m) of None \<Rightarrow> 0 | Some n \<Rightarrow> n),
          src_similarity_score = py_round (score m) 4,
          src_text_preview = (if length chunk_text > 200
                              then take 200 chunk_text @ of_ascii ''...''
                              else chunk_text)\<rparr>)"

text \<open>\<open>for i, match in enumerate(similar_chunks)\<close>, entered at index \<open>i\<close>.\<close>

fun prepare_context ::
  "nat \<Rightarrow> match list \<Rightarrow> pystr list \<Rightarrow> source list \<Rightarrow> pystr list \<times> source list" where
  "prepare_context i [] context_parts srcs = (context_parts, srcs)"
| "prepare_context i (m # ms) context_parts srcs =
     prepare_context (i + 1) ms
       (context_parts @
          [of_ascii ''[Source '' @ str_nat (i + 1) @ of_ascii '']: '' @ chunk_text_of m])
       (srcs @ [source_entry m])"

definition no_results_answer :: pystr where
  "no_results_answer =
     of_ascii ''I couldn'' @ [39] @
     of_ascii ''t find any relevant information to answer your question.''"

definition process_query ::
  "RAGService \<Rightarrow> env \<Rightarrow> world \<Rightarrow> pystr \<Rightarrow> int option \<Rightarrow> real option
     \<Rightarrow> (pystr \<times> pystr) list option \<Rightarrow> (py_error + query_result) \<times> world" where
  "process_query svc e w q max_chunks_arg similarity_threshold_arg metadata_filter =
     (let (start_time, w1) = time_time e w;
          max_chunks = py_or max_chunks_arg (top_k (settings svc));
          threshold = py_or similarity_threshold_arg (similarity_threshold (settings svc));
          (phase_start, w2) = time_time e w1;
          (embedding_result, w3) = generate_embedding (settings svc) e w2 q
      in case embedding_result of
           Inl err \<Rightarrow> (Inl err, w3)
         | Inr query_embedding \<Rightarrow>
             (let (t_embedded, w4) = time_time e w3;
                  embedding_time_ms = (t_embedded - phase_start) * 1000;
                  (phase_start_search, w5) = time_time e w4;
                  (search_result, w6) =
                     search_similar_chunks svc e w5 query_embedding max_chunks threshold
                       metadata_filter
              in case search_result of
                   Inl err \<Rightarrow> (Inl err, w6)
                 | Inr similar_chunks \<Rightarrow>
                     (let (t_searched, w7) = time_time e w6;
                          search_time_ms = (t_searched - phase_start_search) * 1000
                      in if similar_chunks = [] then
                           (let (t_end, w8) = time_time e w7;
                                (ts, w9) = utc_now e w8
                            in (Inr \<lparr>answer = no_results_answer, query = q, sources = [],
                                     processing_time_ms =
                                       py_round ((t_end - start_time) * 1000) 2,
                                     chunks_found = 0, timestamp = ts,
                                     performance_breakdown = None\<rparr>, w9))
                         else
                           (let (context_parts, srcs) =
                                   prepare_context 0 similar_chunks [] [];
                                context = py_join [10, 10] context_parts;
                                (phase_start_generation, w8) = time_time e w7;
                                (answer_result, w9) =
                                   generate_answer (settings svc) e w8 q context
                            in case answer_result of
                                 Inl err \<Rightarrow> (Inl err, w9)
                               | Inr ans \<Rightarrow>
                                   (let (t_generated, w10) = time_time e w9;
                                        generation_time_ms =
                                          (t_generated - phase_start_generation) * 1000;
                                        (t_total, w11) = time_time e w10;
                                        processing_time =
                                          py_round ((t_total - start_time) * 1000) 2;
                                        (ts, w12) = utc_now e w11
                                    in (Inr \<lparr>answer = ans, query = q, sources = srcs,
                                             processing_time_ms = processing_time,
                                             chunks_found = length similar_chunks,
                                             timestamp = ts,
                                             performance_breakdown =
                                               Some \<lparr>embedding_ms = py_round embedding_time_ms 2,
                                                     vector_search_ms = py_round search_time_ms 2,
                                                     llm_generation_ms =
                                                       py_round generation_time_ms 2,
                                                     total_ms = processing_time\<rparr>\<rparr>,
                                        w12))))))"

section \<open>The boundary: \<open>POST /query\<close>\<close>

text \<open>
  The body of a request before validation. \<open>QueryRequest\<close> declares \<open>query\<close> required
  with \<open>min_length=1, max_length=1000\<close>, \<open>max_chunks\<close> optional with \<open>ge=1, le=20\<close> and
  \<open>similarity_threshold\<close> optional with \<open>ge=0.0, le=1.0\<close>. The framework answers a body
  that breaks a constraint with a validation error, without calling the endpoint function,
  and an exception that escapes the endpoint function with a server error; the status
  codes of these answers are the framework's and are not modelled.
\<close>

record request_body =
  body_query :: "pystr option"
  body_max_chunks :: "int option"
  body_similarity_threshold :: "real option"
  body_metadata_filter :: "(pystr \<times> pystr) list option"

definition QueryRequest_valid :: "request_body \<Rightarrow> bool" where
  "QueryRequest_valid b =
     ((case body_query b of None \<Rightarrow> False | Some q \<Rightarrow> 1 \<le> length q \<and> length q \<le> 1000) \<and>
      (case body_max_chunks b of None \<Rightarrow> True | Some n \<Rightarrow> 1 \<le> n \<and> n \<le> 20) \<and>
      (case body_similarity_threshold b of None \<Rightarrow> True | Some t \<Rightarrow> 0 \<le> t \<and> t \<le> 1))"

datatype http_response =
    Validation_Error
  | Server_Error py_error
  | Ok_Response query_result

definition query_documents ::
  "RAGService \<Rightarrow> env \<Rightarrow> world \<Rightarrow> request_body \<Rightarrow> http_response \<times> world" where
  "query_documents svc e w b =
     (if \<not> QueryRequest_valid b then (Validation_Error, w)
      else (case body_query b of
              None \<Rightarrow> (Validation_Error, w)
            | Some q \<Rightarrow>
                (case process_query svc e w q (body_max_chunks b)
                        (body_similarity_threshold b) (body_metadata_filter b) of
                   (Inl err, w1) \<Rightarrow> (Server_Error err, w1)
                 | (Inr result, w1) \<Rightarrow> (Ok_Response result, w1))))"

section \<open>Notions used in the statements\<close>

text \<open>
  The similarity that \<open>query_vectors\<close> computes for a returned vector, and the vectors of a
  response (\<open>response.get("vectors", [])\<close>).
\<close>

definition similarity_of :: "vector \<Rightarrow> real" where
  "similarity_of v = similarity_score (case distance v of None \<Rightarrow> 0 | Some x \<Rightarrow> x)"

definition response_vectors :: "query_response \<Rightarrow> vector list" where
  "response_vectors r = (case vectors r of None \<Rightarrow> [] | Some vs \<Rightarrow> vs)"

text \<open>Successive slices of at most \<open>n\<close> elements.\<close>

fun batches_of :: "nat \<Rightarrow> 'a list \<Rightarrow> 'a list list" where
  "batches_of n xs = (if xs = [] \<or> n = 0 then [] else take n xs # batches_of n (drop n xs))"

declare batches_of.simps [simp del]

text \<open>The request that \<open>generate_answer\<close> sends to the generation backend.\<close>

definition llm_request_of :: "Settings \<Rightarrow> pystr \<Rightarrow> pystr \<Rightarrow> llm_request" where
  "llm_request_of s q ctx =
     \<lparr>modelId = llm_model_id s, req_max_tokens = max_tokens s,
      req_temperature = temperature s, req_prompt = make_prompt q ctx\<rparr>"

section \<open>A concrete run\<close>

text \<open>
  Concrete collaborators on which the theorems below are instantiated: a clock that
  advances by one microsecond per reading, an embedding backend that answers \<open>[1, 0]\<close>,
  an index that returns three vectors (distances 0.2, 1.6 and none), a generation backend
  that answers " Blue. " without usage data, and put oracles for the upsert.
\<close>

definition example_client :: S3VectorClient where
  "example_client = new_S3VectorClient (of_ascii ''us-east-1'') (of_ascii ''docs'') (of_ascii ''rag-index'')"

definition example_vectors :: "vector list" where
  "example_vectors =
     [\<lparr>key = Some (of_ascii ''a''), distance = Some (1 / 5),
       v_metadata = Some \<lparr>md_source = Some (of_ascii ''sky.txt''), md_chunk_index = Some 0,
                          md_source_text = Some (of_ascii ''The sky is blue.'')\<rparr>\<rparr>,
      \<lparr>key = Some (of_ascii ''b''), distance = Some (8 / 5), v_metadata = None\<rparr>,
      \<lparr>key = Some (of_ascii ''c''), distance = None, v_metadata = None\<rparr>]"

definition example_env :: env where
  "example_env =
     \<lparr>clock = (\<lambda>n. real n / 1000000), utc_iso = (\<lambda>n. of_ascii ''2025-01-01T00:00:00+00:00''),
      float32 = (\<lambda>x. x),
      invoke_embed = (\<lambda>m t. Inr \<lparr>embedding = Some [1, 0]\<rparr>),
      invoke_llm = (\<lambda>r. Inr \<lparr>content = Some [\<lparr>block_type = Some (of_ascii ''text''),
                                                 block_text = Some (of_ascii '' Blue. '')\<rparr>],
                             stop_reason = Some (of_ascii ''end_turn''), usage_field = None\<rparr>),
      s3_query = (\<lambda>p. Inr \<lparr>vectors = Some example_vectors\<rparr>)\<rparr>"

definition example_world :: world where
  "example_world = \<lparr>ticks = 0, embed_calls = [], search_calls = [], answer_calls = []\<rparr>"

definition example_matches :: "match list" where
  "example_matches =
     [\<lparr>ident = of_ascii ''a'', score = 9 / 10,
       m_metadata = \<lparr>md_source = Some (of_ascii ''sky.txt''), md_chunk_index = Some 0,
                       md_source_text = Some (of_ascii ''The sky is blue.'')\<rparr>\<rparr>,
      \<lparr>ident = of_ascii ''b'', score = 1 / 5, m_metadata = empty_metadata\<rparr>,
      \<lparr>ident = of_ascii ''c'', score = 1, m_metadata = empty_metadata\<rparr>]"

definition example_input_vector :: "metadata input_vector" where
  "example_input_vector =
     \<lparr>vec_id = of_ascii ''k'', vec_values = [1, 0],
      vec_metadata = \<lparr>md_source = Some (of_ascii ''sky.txt''), md_chunk_index = Some 0,
                       md_source_text = Some (of_ascii ''The sky is blue.'')\<rparr>\<rparr>"

definition example_records :: "metadata input_vector list" where
  "example_records = replicate 1200 example_input_vector"

definition always_ok :: "nat \<Rightarrow> metadata put_vector list \<Rightarrow> py_error option" where
  "always_ok n b = None"




definition example_settings :: Settings where
  "example_settings =
     \<lparr>aws_region = of_ascii ''us-east-1'', s3_vector_bucket_name = of_ascii ''docs'',
      s3_vector_index_name = of_ascii ''rag-index'',
      embed_model_id = of_ascii ''amazon.titan-embed-text-v2:0'',
      llm_model_id = of_ascii ''us.anthropic.claude-3-5-haiku-20241022-v1:0'',
      top_k = 6, similarity_threshold = 1 / 2, max_tokens = 512, temperature = 1 / 5\<rparr>"

definition empty_content_env :: env where
  "empty_content_env =
     example_env\<lparr>invoke_llm := \<lambda>r. Inr \<lparr>content = Some [], stop_reason = None,
                                          usage_field = None\<rparr>\<rparr>"

definition no_text_env :: env where
  "no_text_env =
     example_env\<lparr>invoke_llm := \<lambda>r. Inr \<lparr>content = Some [\<lparr>block_type = Some (of_ascii ''tool_use''),
                                                            block_text = None\<rparr>],
                                          stop_reason = Some (of_ascii ''tool_use''),
                                          usage_field = None\<rparr>\<rparr>"

definition backend_key_error_env :: env where
  "backend_key_error_env = example_env\<lparr>invoke_llm := \<lambda>r. Inl (KeyError (of_ascii ''text''))\<rparr>"

definition throttled_env :: env where
  "throttled_env =
     example_env\<lparr>invoke_llm := \<lambda>r. Inl (ClientError (of_ascii ''ThrottlingException''))\<rparr>"

definition example_service :: RAGService where
  "example_service = new_RAGService example_settings"

definition no_match_env :: env where
  "no_match_env = example_env\<lparr>s3_query := \<lambda>p. Inr \<lparr>vectors = Some []\<rparr>\<rparr>"

definition long_match :: match where
  "long_match =
     \<lparr>ident = of_ascii ''d'', score = 123456 / 1000000,
      m_metadata = \<lparr>md_source = Some (of_ascii ''long.txt''), md_chunk_index = Some 3,
                      md_source_text = Some (replicate 250 97)\<rparr>\<rparr>"

definition example_result :: query_result where
  "example_result =
     \<lparr>answer = of_ascii ''Blue.'', query = of_ascii ''sky?'',
      sources =
        [\<lparr>src_source = of_ascii ''sky.txt'', src_chunk_index = 0,
          src_similarity_score = 9 / 10,
          src_text_preview = of_ascii ''The sky is blue.''\<rparr>,
         \<lparr>src_source = of_ascii ''Unknown'', src_chunk_index = 0,
          src_similarity_score = 1, src_text_preview = []\<rparr>],
      processing_time_ms = 1 / 50, chunks_found = 2,
      timestamp = of_ascii ''2025-01-01T00:00:00+00:00'',
      performance_breakdown =
        Some \<lparr>embedding_ms = 0, vector_search_ms = 1 / 100, llm_generation_ms = 0,
              total_ms = 1 / 50\<rparr>\<rparr>"

section \<open>Vector Index Gateway: the query results\<close>

lemma process_vectors_Inr:
  "process_vectors t vs acc = Inr ms \<Longrightarrow>
     map (\<lambda>m. (Some (ident m), score m, m_metadata m)) ms =
       map (\<lambda>m. (Some (ident m), score m, m_metadata m)) acc @
       map (\<lambda>v. (key v, similarity_of v, (case v_metadata v of None \<Rightarrow> empty_metadata | Some m \<Rightarrow> m)))
         (filter (\<lambda>v. t \<le> similarity_of v) vs)"
proof (induction vs arbitrary: acc)
  case Nil
  then show ?case by simp
next
  case (Cons v vs)
  show ?case
  proof (cases "t \<le> similarity_of v")
    case True
    with Cons.prems obtain k where k: "key v = Some k"
      by (auto simp: similarity_of_def Let_def split: option.splits)
    from Cons.prems True k have
      "process_vectors t vs (acc @ [\<lparr>ident = k, score = similarity_of v,
          m_metadata = (case v_metadata v of None \<Rightarrow> empty_metadata | Some m \<Rightarrow> m)\<rparr>]) = Inr ms"
      by (simp add: similarity_of_def Let_def)
    from Cons.IH [OF this] True k show ?thesis by simp
  next
    case False
    with Cons.prems have "process_vectors t vs acc = Inr ms"
      by (simp add: similarity_of_def Let_def)
    from Cons.IH [OF this] False show ?thesis by simp
  qed
qed

lemma process_vectors_total:
  "\<forall>v \<in> set vs. key v \<noteq> None \<Longrightarrow> \<exists>ms. process_vectors t vs acc = Inr ms"
  by (induction vs arbitrary: acc) (auto simp: Let_def)

lemma query_vectors_Inr:
  "fst (query_vectors c e w emb k f t) = Inr ms \<Longrightarrow>
     \<exists>r. s3_query e (query_params_of c e emb k f) = Inr r \<and>
         process_vectors t (response_vectors r) [] = Inr ms"
  by (auto simp: query_vectors_def response_vectors_def Let_def time_time_def
           split: sum.splits if_splits prod.splits)

lemma query_vectors_ok:
  "s3_query e (query_params_of c e emb k f) = Inr r \<Longrightarrow>
     fst (query_vectors c e w emb k f t) = process_vectors t (response_vectors r) []"
  by (auto simp: query_vectors_def response_vectors_def Let_def time_time_def
           split: sum.splits if_splits prod.splits)


text \<open>
  Claim C1. Whatever the threshold (so in particular for every threshold in \<open>[0,1]\<close>), every
  match that \<open>query_vectors\<close> returns has a score at or above it: the returned matches are,
  in the order received, exactly the vectors of the backend's response whose similarity is
  at or above the threshold, so no vector below it is ever included. The test is made
  inside \<open>query_vectors\<close>, before it returns.
\<close>

theorem query_vectors_threshold:
  assumes "fst (query_vectors c e w emb k f t) = Inr ms"
  shows "(\<forall>m \<in> set ms. t \<le> score m) \<and>
         (\<exists>r. s3_query e (query_params_of c e emb k f) = Inr r \<and>
              map (\<lambda>m. (Some (ident m), score m)) ms =
                map (\<lambda>v. (key v, similarity_of v))
                  (filter (\<lambda>v. t \<le> similarity_of v) (response_vectors r)))"
proof -
  from query_vectors_Inr [OF assms] obtain r
    where r: "s3_query e (query_params_of c e emb k f) = Inr r"
      and p: "process_vectors t (response_vectors r) [] = Inr ms"
    by blast
  have full: "map (\<lambda>m. (Some (ident m), score m, m_metadata m)) ms =
       map (\<lambda>v. (key v, similarity_of v,
                  (case v_metadata v of None \<Rightarrow> empty_metadata | Some m \<Rightarrow> m)))
         (filter (\<lambda>v. t \<le> similarity_of v) (response_vectors r))"
    using process_vectors_Inr [OF p] by simp
  have "map (\<lambda>x. (fst x, fst (snd x))) (map (\<lambda>m. (Some (ident m), score m, m_metadata m)) ms) =
        map (\<lambda>x. (fst x, fst (snd x))) (map (\<lambda>v. (key v, similarity_of v,
                  (case v_metadata v of None \<Rightarrow> empty_metadata | Some m \<Rightarrow> m)))
         (filter (\<lambda>v. t \<le> similarity_of v) (response_vectors r)))"
    by (simp only: full)
  then have pairs: "map (\<lambda>m. (Some (ident m), score m)) ms =
                map (\<lambda>v. (key v, similarity_of v))
                  (filter (\<lambda>v. t \<le> similarity_of v) (response_vectors r))"
    by (simp add: comp_def)
  have "map score ms = map similarity_of (filter (\<lambda>v. t \<le> similarity_of v) (response_vectors r))"
    using arg_cong [OF pairs, of "map snd"] by (simp add: comp_def)
  then have "set (map score ms) \<subseteq> {s. t \<le> s}"
    by auto
  then have "\<forall>m \<in> set ms. t \<le> score m" by auto
  with r pairs show ?thesis by blast
qed

theorem query_vectors_threshold_witness:
  "fst (query_vectors example_client example_env example_world [1, 0] 6 None (1 / 2)) =
     Inr [\<lparr>ident = of_ascii ''a'', score = 9 / 10,
           m_metadata = \<lparr>md_source = Some (of_ascii ''sky.txt''), md_chunk_index = Some 0,
                          md_source_text = Some (of_ascii ''The sky is blue.'')\<rparr>\<rparr>,
          \<lparr>ident = of_ascii ''c'', score = 1, m_metadata = empty_metadata\<rparr>] \<and>
   list_all (\<lambda>m. 1 / 2 \<le> score m)
     [\<lparr>ident = of_ascii ''a'', score = 9 / 10,
       m_metadata = \<lparr>md_source = Some (of_ascii ''sky.txt''), md_chunk_index = Some 0,
                      md_source_text = Some (of_ascii ''The sky is blue.'')\<rparr>\<rparr>,
      \<lparr>ident = of_ascii ''c'', score = 1, m_metadata = empty_metadata\<rparr>]"
proof -
  have h: "fst (query_vectors example_client example_env example_world [1, 0] 6 None (1 / 2)) =
     Inr [\<lparr>ident = of_ascii ''a'', score = 9 / 10,
           m_metadata = \<lparr>md_source = Some (of_ascii ''sky.txt''), md_chunk_index = Some 0,
                          md_source_text = Some (of_ascii ''The sky is blue.'')\<rparr>\<rparr>,
          \<lparr>ident = of_ascii ''c'', score = 1, m_metadata = empty_metadata\<rparr>]"
    by (simp add: query_vectors_def example_env_def example_vectors_def time_time_def
          similarity_score_def Let_def)
  from query_vectors_threshold [OF h] h show ?thesis
    unfolding list_all_iff by blast
qed

text \<open>
  Claim C2. For a cosine distance \<open>d\<close> in \<open>[0,2]\<close> the similarity \<open>1 - d/2\<close> lies in
  \<open>[0,1]\<close>, distance 0 gives exactly 1 and distance 2 gives exactly 0; hence every match
  returned for a response whose distances lie in \<open>[0,2]\<close> has its score in \<open>[0,1]\<close>.
\<close>

theorem similarity_in_unit_interval:
  "(0 \<le> d \<and> d \<le> 2 \<longrightarrow> 0 \<le> similarity_score d \<and> similarity_score d \<le> 1) \<and>
   similarity_score 0 = 1 \<and> similarity_score 2 = 0 \<and>
   (s3_query e (query_params_of c e emb k f) = Inr r \<and>
    (\<forall>v \<in> set (response_vectors r). \<forall>x. distance v = Some x \<longrightarrow> 0 \<le> x \<and> x \<le> 2) \<and>
    fst (query_vectors c e w emb k f t) = Inr ms
    \<longrightarrow> (\<forall>m \<in> set ms. 0 \<le> score m \<and> score m \<le> 1))"
proof -
  have a: "0 \<le> d \<and> d \<le> 2 \<longrightarrow> 0 \<le> similarity_score d \<and> similarity_score d \<le> 1"
    by (simp add: similarity_score_def)
  have b: "similarity_score 0 = 1" "similarity_score 2 = 0"
    by (simp_all add: similarity_score_def)
  have c: "\<forall>m \<in> set ms. 0 \<le> score m \<and> score m \<le> 1"
    if r: "s3_query e (query_params_of c e emb k f) = Inr r"
      and d: "\<forall>v \<in> set (response_vectors r). \<forall>x. distance v = Some x \<longrightarrow> 0 \<le> x \<and> x \<le> 2"
      and q: "fst (query_vectors c e w emb k f t) = Inr ms"
  proof -
    from q r have p: "process_vectors t (response_vectors r) [] = Inr ms"
      by (simp add: query_vectors_ok)
    have "map score ms =
          map similarity_of (filter (\<lambda>v. t \<le> similarity_of v) (response_vectors r))"
      using arg_cong [OF process_vectors_Inr [OF p], of "map (\<lambda>x. fst (snd x))"]
      by (simp add: comp_def)
    moreover have "0 \<le> similarity_of v \<and> similarity_of v \<le> 1" if "v \<in> set (response_vectors r)" for v
      using d that by (cases "distance v") (auto simp: similarity_of_def similarity_score_def)
    ultimately have "set (map score ms) \<subseteq> {s. 0 \<le> s \<and> s \<le> 1}"
      by auto
    then show ?thesis by auto
  qed
  from a b c show ?thesis by blast
qed

theorem similarity_in_unit_interval_witness:
  "(0 :: real) \<le> 1 / 5 \<and> (1 / 5 :: real) \<le> 2 \<and> similarity_score (1 / 5) = 9 / 10 \<and>
   0 \<le> similarity_score (1 / 5) \<and> similarity_score (1 / 5) \<le> 1 \<and>
   fst (query_vectors example_client example_env example_world [1, 0] 6 None 0) =
     Inr example_matches \<and>
   map score example_matches = [9 / 10, 1 / 5, 1] \<and>
   list_all (\<lambda>m. 0 \<le> score m \<and> score m \<le> 1) example_matches"
proof -
  have r: "s3_query example_env (query_params_of example_client example_env [1, 0] 6 None) =
     Inr \<lparr>vectors = Some example_vectors\<rparr>"
    by (simp add: example_env_def)
  have d: "\<forall>v \<in> set (response_vectors \<lparr>vectors = Some example_vectors\<rparr>).
      \<forall>x. distance v = Some x \<longrightarrow> 0 \<le> x \<and> x \<le> 2"
    by (simp add: response_vectors_def example_vectors_def)
  have q: "fst (query_vectors example_client example_env example_world [1, 0] 6 None 0) =
     Inr example_matches"
    by (simp add: query_vectors_def example_env_def example_vectors_def time_time_def
          similarity_score_def example_matches_def Let_def)
  have s: "map score example_matches = [9 / 10, 1 / 5, 1]"
    by (simp add: example_matches_def)
  have v: "similarity_score (1 / 5) = 9 / 10" by (simp add: similarity_score_def)
  from similarity_in_unit_interval [of "1 / 5" example_env example_client "[1, 0]" 6 None
      "\<lparr>vectors = Some example_vectors\<rparr>" example_world 0 example_matches]
    r d q s v
  show ?thesis unfolding list_all_iff by simp
qed

text \<open>
  Claim C10. A returned vector without a distance field is given distance 0 and similarity
  exactly 1, and so it is among the returned matches for every threshold at most 1 (the
  query returns as soon as every returned vector carries its key).
\<close>

theorem missing_distance_scores_one:
  assumes "s3_query e (query_params_of c e emb k f) = Inr r"
    and "\<forall>u \<in> set (response_vectors r). key u \<noteq> None"
    and "v \<in> set (response_vectors r)"
    and "distance v = None"
    and "t \<le> 1"
  shows "similarity_of v = 1 \<and>
         (\<exists>ms. fst (query_vectors c e w emb k f t) = Inr ms \<and>
            (\<exists>m \<in> set ms. Some (ident m) = key v \<and> score m = 1 \<and>
               m_metadata m = (case v_metadata v of None \<Rightarrow> empty_metadata | Some x \<Rightarrow> x)))"
proof -
  have one: "similarity_of v = 1"
    using assms(4) by (simp add: similarity_of_def similarity_score_def)
  from process_vectors_total [OF assms(2)] obtain ms
    where p: "process_vectors t (response_vectors r) [] = Inr ms" by blast
  have q: "fst (query_vectors c e w emb k f t) = Inr ms"
    using assms(1) p by (simp add: query_vectors_ok)
  have "v \<in> set (filter (\<lambda>v. t \<le> similarity_of v) (response_vectors r))"
    using assms(3,5) one by simp
  then have "(key v, similarity_of v, (case v_metadata v of None \<Rightarrow> empty_metadata | Some m \<Rightarrow> m))
      \<in> set (map (\<lambda>m. (Some (ident m), score m, m_metadata m)) ms)"
    using process_vectors_Inr [OF p] by force
  then obtain m where "m \<in> set ms" "Some (ident m) = key v" "score m = similarity_of v"
      "m_metadata m = (case v_metadata v of None \<Rightarrow> empty_metadata | Some x \<Rightarrow> x)"
    by auto
  with one q show ?thesis by auto
qed

theorem missing_distance_scores_one_witness:
  "similarity_of \<lparr>key = Some (of_ascii ''c''), distance = None, v_metadata = None\<rparr> = 1 \<and>
   fst (query_vectors example_client example_env example_world [1, 0] 6 None 1) =
     Inr [\<lparr>ident = of_ascii ''c'', score = 1, m_metadata = empty_metadata\<rparr>]"
proof -
  have r: "s3_query example_env (query_params_of example_client example_env [1, 0] 6 None) =
     Inr \<lparr>vectors = Some example_vectors\<rparr>"
    by (simp add: example_env_def)
  have ks: "\<forall>u \<in> set (response_vectors \<lparr>vectors = Some example_vectors\<rparr>). key u \<noteq> None"
    by (simp add: response_vectors_def example_vectors_def)
  have v: "\<lparr>key = Some (of_ascii ''c''), distance = None, v_metadata = None\<rparr>
             \<in> set (response_vectors \<lparr>vectors = Some example_vectors\<rparr>)"
    by (simp add: response_vectors_def example_vectors_def)
  have q: "fst (query_vectors example_client example_env example_world [1, 0] 6 None 1) =
     Inr [\<lparr>ident = of_ascii ''c'', score = 1, m_metadata = empty_metadata\<rparr>]"
    by (simp add: query_vectors_def example_env_def example_vectors_def time_time_def
          similarity_score_def Let_def)
  from missing_distance_scores_one [OF r ks v, of 1 example_world] q
  show ?thesis by simp
qed

section \<open>Vector Index Gateway: batching of the upsert\<close>

lemma put_with_retry_success:
  assumes "\<forall>n b. put n b = None" and "0 < max_retries c"
  shows "put_with_retry c put batch 0 tot st =
           (Inr (tot + length batch), st\<lparr>put_calls := put_calls st @ [batch]\<rparr>)"
  using assms by (subst put_with_retry.simps) (simp add: Let_def)

lemma upsert_batches_success:
  "\<forall>n b. put n b = None \<Longrightarrow> 0 < max_retries c \<Longrightarrow>
     upsert_batches c put fv i tot st =
           (Inr (tot + (length fv - i)),
            st\<lparr>put_calls := put_calls st @ batches_of batch_size (drop i fv)\<rparr>)"
proof (induction c put fv i tot st rule: upsert_batches.induct)
  case (1 c put fv i tot st)
  show ?case
  proof (cases "i < length fv")
    case True
    have b: "batches_of batch_size (drop i fv) =
               take batch_size (drop i fv) # batches_of batch_size (drop (i + batch_size) fv)"
      using True by (subst batches_of.simps) (simp add: batch_size_def add.commute)
    have r: "put_with_retry c put (take batch_size (drop i fv)) 0 tot st =
           (Inr (tot + length (take batch_size (drop i fv))),
            st\<lparr>put_calls := put_calls st @ [take batch_size (drop i fv)]\<rparr>)"
      using "1.prems" by (rule put_with_retry_success)
    have "upsert_batches c put fv i tot st =
            upsert_batches c put fv (i + batch_size)
              (tot + length (take batch_size (drop i fv)))
              (st\<lparr>put_calls := put_calls st @ [take batch_size (drop i fv)]\<rparr>)"
      using True r by (subst upsert_batches.simps) (simp add: Let_def)
    also have "\<dots> = (Inr (tot + length (take batch_size (drop i fv)) + (length fv - (i + batch_size))),
            st\<lparr>put_calls := put_calls st @ [take batch_size (drop i fv)] @
                 batches_of batch_size (drop (i + batch_size) fv)\<rparr>)"
      using "1.IH" [OF True refl r [symmetric] refl "1.prems"] by simp
    finally show ?thesis using True b by (auto simp: min_def)
  next
    case False
    then show ?thesis
      by (subst upsert_batches.simps, subst batches_of.simps) simp
  qed
qed


lemma concat_batches_of: "0 < n \<Longrightarrow> concat (batches_of n xs) = xs"
proof (induction n xs rule: batches_of.induct)
  case (1 n xs)
  then show ?case by (subst batches_of.simps) auto
qed

lemma batches_of_bounds:
  "0 < n \<Longrightarrow> b \<in> set (batches_of n xs) \<Longrightarrow> b \<noteq> [] \<and> length b \<le> n"
proof (induction n xs rule: batches_of.induct)
  case (1 n xs)
  have ne: "xs \<noteq> []"
  proof
    assume "xs = []"
    then have "batches_of n xs = []" by (subst batches_of.simps) simp
    with "1.prems"(2) show False by simp
  qed
  have unf: "batches_of n xs = take n xs # batches_of n (drop n xs)"
    using ne "1.prems"(1) by (subst batches_of.simps) simp
  from "1.prems"(2) have "b = take n xs \<or> b \<in> set (batches_of n (drop n xs))"
    by (simp add: unf)
  then show ?case
  proof
    assume "b = take n xs"
    with ne "1.prems"(1) show ?thesis by simp
  next
    assume "b \<in> set (batches_of n (drop n xs))"
    with "1.IH" ne "1.prems"(1) show ?thesis by simp
  qed
qed

lemma batches_of_full:
  "0 < n \<Longrightarrow> b \<in> set (butlast (batches_of n xs)) \<Longrightarrow> length b = n"
proof (induction n xs rule: batches_of.induct)
  case (1 n xs)
  have ne: "xs \<noteq> []"
  proof
    assume "xs = []"
    then have "batches_of n xs = []" by (subst batches_of.simps) simp
    with "1.prems"(2) show False by simp
  qed
  have unf: "batches_of n xs = take n xs # batches_of n (drop n xs)"
    using ne "1.prems"(1) by (subst batches_of.simps) simp
  show ?case
  proof (cases "batches_of n (drop n xs) = []")
    case True
    with "1.prems"(2) show ?thesis by (simp add: unf)
  next
    case False
    have "drop n xs \<noteq> []"
    proof
      assume "drop n xs = []"
      then have "batches_of n (drop n xs) = []" by (subst batches_of.simps) simp
      with False show False by simp
    qed
    then have full: "length (take n xs) = n" by simp
    from False "1.prems"(2)
    have "b = take n xs \<or> b \<in> set (butlast (batches_of n (drop n xs)))"
      by (simp add: unf)
    then show ?thesis
    proof
      assume "b = take n xs"
      with full show ?thesis by simp
    next
      assume "b \<in> set (butlast (batches_of n (drop n xs)))"
      with "1.IH" ne "1.prems"(1) show ?thesis by simp
    qed
  qed
qed

lemma batches_of_1200:
  assumes "length xs = 1200"
  shows "map length (batches_of 500 xs) = [500, 500, 200]"
proof -
  have "batches_of 500 xs = take 500 xs # batches_of 500 (drop 500 xs)"
    using assms by (subst batches_of.simps) auto
  moreover have "batches_of 500 (drop 500 xs) =
      take 500 (drop 500 xs) # batches_of 500 (drop 500 (drop 500 xs))"
    using assms by (subst batches_of.simps) auto
  moreover have "batches_of 500 (drop 500 (drop 500 xs)) =
      take 500 (drop 500 (drop 500 xs)) # batches_of 500 (drop 500 (drop 500 (drop 500 xs)))"
    using assms by (subst batches_of.simps) auto
  moreover have "batches_of 500 (drop 500 (drop 500 (drop 500 xs))) = []"
    using assms by (subst batches_of.simps) auto
  ultimately show ?thesis using assms by simp
qed

text \<open>
  Claim C5. When every put returns, \<open>upsert_vectors\<close> hands the backend the formatted
  records in successive batches of at most 500 (every batch but the last of exactly 500),
  whose concatenation is the whole input, and returns the number of input records; for
  1200 records these are exactly three puts, of 500, 500 and 200 records.
\<close>

theorem upsert_batches_of_500:
  assumes "c = new_S3VectorClient region bucket index" and "\<forall>n b. put n b = None"
  shows "\<exists>calls.
           upsert_vectors c f32 put vs st =
             (Inr (length vs), st\<lparr>put_calls := put_calls st @ calls\<rparr>) \<and>
           concat calls = map (format_vector f32) vs \<and>
           (\<forall>b \<in> set calls. b \<noteq> [] \<and> length b \<le> 500) \<and>
           (\<forall>b \<in> set (butlast calls). length b = 500) \<and>
           (length vs = 1200 \<longrightarrow> map length calls = [500, 500, 200])"
proof -
  define fv where "fv = map (format_vector f32) vs"
  define calls where "calls = batches_of batch_size fv"
  have m: "0 < max_retries c" using assms(1) by (simp add: new_S3VectorClient_def)
  have "upsert_batches c put fv 0 0 st =
          (Inr (0 + (length fv - 0)),
           st\<lparr>put_calls := put_calls st @ batches_of batch_size (drop 0 fv)\<rparr>)"
    using assms(2) m by (rule upsert_batches_success)
  then have a: "upsert_vectors c f32 put vs st =
          (Inr (length vs), st\<lparr>put_calls := put_calls st @ calls\<rparr>)"
    by (simp add: upsert_vectors_def fv_def calls_def)
  have b: "concat calls = map (format_vector f32) vs"
    unfolding calls_def fv_def by (rule concat_batches_of) (simp add: batch_size_def)
  have c: "\<forall>b \<in> set calls. b \<noteq> [] \<and> length b \<le> 500"
  proof
    fix b assume "b \<in> set calls"
    then have "b \<in> set (batches_of batch_size fv)" by (simp only: calls_def)
    then have "b \<noteq> [] \<and> length b \<le> batch_size"
      by (rule batches_of_bounds [rotated]) (simp add: batch_size_def)
    then show "b \<noteq> [] \<and> length b \<le> 500" by (simp add: batch_size_def)
  qed
  have d: "\<forall>b \<in> set (butlast calls). length b = 500"
  proof
    fix b assume "b \<in> set (butlast calls)"
    then have "b \<in> set (butlast (batches_of batch_size fv))" by (simp only: calls_def)
    then have "length b = batch_size"
      by (rule batches_of_full [rotated]) (simp add: batch_size_def)
    then show "length b = 500" by (simp add: batch_size_def)
  qed
  have e: "length vs = 1200 \<longrightarrow> map length calls = [500, 500, 200]"
  proof
    assume "length vs = 1200"
    then have "length fv = 1200" by (simp add: fv_def)
    then have "map length (batches_of 500 fv) = [500, 500, 200]" by (rule batches_of_1200)
    then show "map length calls = [500, 500, 200]" by (simp only: calls_def batch_size_def)
  qed
  from a b c d e have
    "upsert_vectors c f32 put vs st =
             (Inr (length vs), st\<lparr>put_calls := put_calls st @ calls\<rparr>) \<and>
           concat calls = map (format_vector f32) vs \<and>
           (\<forall>b \<in> set calls. b \<noteq> [] \<and> length b \<le> 500) \<and>
           (\<forall>b \<in> set (butlast calls). length b = 500) \<and>
           (length vs = 1200 \<longrightarrow> map length calls = [500, 500, 200])"
    by (intro conjI)
  then show ?thesis by (rule exI)
qed

theorem upsert_batches_of_500_witness:
  "fst (upsert_vectors example_client (\<lambda>x. x) always_ok example_records
          \<lparr>put_calls = [], sleeps = []\<rparr>) = Inr 1200 \<and>
   map length (put_calls (snd (upsert_vectors example_client (\<lambda>x. x) always_ok example_records
          \<lparr>put_calls = [], sleeps = []\<rparr>))) = [500, 500, 200]"
proof -
  have c: "example_client =
      new_S3VectorClient (of_ascii ''us-east-1'') (of_ascii ''docs'') (of_ascii ''rag-index'')"
    by (simp add: example_client_def)
  have p: "\<forall>n b. always_ok n b = None"
    by (simp add: always_ok_def)
  have l: "length example_records = 1200"
    by (simp add: example_records_def)
  from upsert_batches_of_500 [OF c p, of "\<lambda>x. x" example_records
      "\<lparr>put_calls = [], sleeps = []\<rparr>"]
  obtain calls where
    a: "upsert_vectors example_client (\<lambda>x. x) always_ok example_records
          \<lparr>put_calls = [], sleeps = []\<rparr> =
        (Inr (length example_records),
         \<lparr>put_calls = [], sleeps = []\<rparr>\<lparr>put_calls := put_calls \<lparr>put_calls = [], sleeps = []\<rparr> @ calls\<rparr>)"
    and b: "length example_records = 1200 \<longrightarrow> map length calls = [500, 500, 200]"
    by (elim exE conjE)
  from b l have b': "map length calls = [500, 500, 200]" by (rule mp)
  have "fst (upsert_vectors example_client (\<lambda>x. x) always_ok example_records
          \<lparr>put_calls = [], sleeps = []\<rparr>) = Inr 1200"
    by (simp only: a l fst_conv)
  moreover have "put_calls (snd (upsert_vectors example_client (\<lambda>x. x) always_ok example_records
          \<lparr>put_calls = [], sleeps = []\<rparr>)) = calls"
    by (simp add: a)
  ultimately show ?thesis by (simp only: b' simp_thms)
qed

section \<open>Vector Index Gateway: retries of the upsert\<close>













section \<open>Answer Generator\<close>

lemma generate_answer_cases:
  "fst (generate_answer s e w q ctx) =
     (case invoke_llm e (llm_request_of s q ctx) of
        Inl err \<Rightarrow> Inl err
      | Inr body \<Rightarrow>
          (case content body of
             None \<Rightarrow> Inl (ValueError (of_ascii ''Unexpected response format''))
           | Some [] \<Rightarrow> Inl (ValueError (of_ascii ''Unexpected response format''))
           | Some (b # bs) \<Rightarrow>
               (case block_text b of
                  None \<Rightarrow> Inl (KeyError (of_ascii ''text''))
                | Some t \<Rightarrow> Inr (py_strip t))))"
  by (simp add: generate_answer_def llm_request_of_def Let_def split_beta
           split: sum.splits option.splits list.splits)

text \<open>
  The claim C8 as it is written asks for one error, MalformedResponseError, whenever the
  response lacks its content structure, and for another, ModelInvocationError, when the
  backend call fails. The code has neither type. An empty \<open>content\<close> raises ValueError and a
  first block without \<open>text\<close> raises KeyError, so two malformed responses fail with
  different exceptions; and the second is the very exception that comes out when the
  backend call itself raises KeyError, so that a malformed response and a failed call are
  not told apart by the error.
\<close>

theorem malformed_response_error_counterexample:
  "fst (generate_answer example_settings empty_content_env example_world (of_ascii ''sky?'') []) =
     Inl (ValueError (of_ascii ''Unexpected response format'')) \<and>
   fst (generate_answer example_settings no_text_env example_world (of_ascii ''sky?'') []) =
     Inl (KeyError (of_ascii ''text'')) \<and>
   fst (generate_answer example_settings backend_key_error_env example_world
          (of_ascii ''sky?'') []) =
     Inl (KeyError (of_ascii ''text'')) \<and>
   ValueError (of_ascii ''Unexpected response format'') \<noteq> KeyError (of_ascii ''text'')"
  by (simp add: generate_answer_cases empty_content_env_def no_text_env_def
        backend_key_error_env_def)

text \<open>
  Claim C8, as amended. \<open>generate_answer\<close> lets every exception of the backend call through
  unchanged. When the backend has answered, a body without \<open>content\<close>, or with an empty
  one, raises ValueError "Unexpected response format"; a first content block without
  \<open>text\<close> raises KeyError; a first block with a text gives the stripped text as the
  answer, and these are the only responses that give an answer. The usage data and the
  stop reason play no part: replacing them in every response, by nothing at all or by
  anything else, leaves the outcome as it is.
\<close>

theorem generate_answer_errors:
  "(invoke_llm e (llm_request_of s q ctx) = Inl err \<longrightarrow>
      fst (generate_answer s e w q ctx) = Inl err) \<and>
   (invoke_llm e (llm_request_of s q ctx) = Inr body \<and>
    (content body = None \<or> content body = Some []) \<longrightarrow>
      fst (generate_answer s e w q ctx) =
        Inl (ValueError (of_ascii ''Unexpected response format''))) \<and>
   (invoke_llm e (llm_request_of s q ctx) = Inr body \<and>
    content body = Some (b # bs) \<and> block_text b = None \<longrightarrow>
      fst (generate_answer s e w q ctx) = Inl (KeyError (of_ascii ''text''))) \<and>
   (invoke_llm e (llm_request_of s q ctx) = Inr body \<and>
    content body = Some (b # bs) \<and> block_text b = Some t \<longrightarrow>
      fst (generate_answer s e w q ctx) = Inr (py_strip t)) \<and>
   ((\<exists>a. fst (generate_answer s e w q ctx) = Inr a) \<longleftrightarrow>
    (\<exists>body' b' bs' t'. invoke_llm e (llm_request_of s q ctx) = Inr body' \<and>
       content body' = Some (b' # bs') \<and> block_text b' = Some t')) \<and>
   ((\<forall>r. invoke_llm e' r =
          (case invoke_llm e r of
             Inl x \<Rightarrow> Inl x
           | Inr body' \<Rightarrow> Inr (body'\<lparr>usage_field := u, stop_reason := sr\<rparr>))) \<longrightarrow>
      fst (generate_answer s e' w q ctx) = fst (generate_answer s e w q ctx))"
proof -
  let ?req = "llm_request_of s q ctx"
  let ?out = "fst (generate_answer s e w q ctx)"
  have upstream: "?out = Inl err" if "invoke_llm e ?req = Inl err"
    using that by (simp add: generate_answer_cases)
  have no_content: "?out = Inl (ValueError (of_ascii ''Unexpected response format''))"
    if "invoke_llm e ?req = Inr body" "content body = None \<or> content body = Some []"
    using that by (auto simp: generate_answer_cases)
  have no_text: "?out = Inl (KeyError (of_ascii ''text''))"
    if "invoke_llm e ?req = Inr body" "content body = Some (b # bs)" "block_text b = None"
    using that by (simp add: generate_answer_cases)
  have answered: "?out = Inr (py_strip t)"
    if "invoke_llm e ?req = Inr body" "content body = Some (b # bs)" "block_text b = Some t"
    using that by (simp add: generate_answer_cases)
  have only: "(\<exists>a. ?out = Inr a) \<longleftrightarrow>
    (\<exists>body' b' bs' t'. invoke_llm e ?req = Inr body' \<and>
       content body' = Some (b' # bs') \<and> block_text b' = Some t')"
  proof
    assume "\<exists>a. ?out = Inr a"
    then obtain a where a: "?out = Inr a" ..
    show "\<exists>body' b' bs' t'. invoke_llm e ?req = Inr body' \<and>
       content body' = Some (b' # bs') \<and> block_text b' = Some t'"
    proof (cases "invoke_llm e ?req")
      case (Inl x)
      with a show ?thesis by (simp add: generate_answer_cases)
    next
      case (Inr body')
      show ?thesis
      proof (cases "content body'")
        case None
        with a Inr show ?thesis by (simp add: generate_answer_cases)
      next
        case (Some blocks)
        show ?thesis
        proof (cases blocks)
          case Nil
          with a Inr Some show ?thesis by (simp add: generate_answer_cases)
        next
          case (Cons b' bs')
          with a Inr Some obtain t' where "block_text b' = Some t'"
            by (cases "block_text b'") (simp_all add: generate_answer_cases)
          with Inr Some Cons show ?thesis by simp
        qed
      qed
    qed
  next
    assume "\<exists>body' b' bs' t'. invoke_llm e ?req = Inr body' \<and>
       content body' = Some (b' # bs') \<and> block_text b' = Some t'"
    then show "\<exists>a. ?out = Inr a" by (auto simp: generate_answer_cases)
  qed
  have same: "fst (generate_answer s e' w q ctx) = ?out"
    if "\<forall>r. invoke_llm e' r =
          (case invoke_llm e r of
             Inl x \<Rightarrow> Inl x
           | Inr body' \<Rightarrow> Inr (body'\<lparr>usage_field := u, stop_reason := sr\<rparr>))"
  proof (cases "invoke_llm e ?req")
    case (Inl x)
    with that show ?thesis by (simp add: generate_answer_cases)
  next
    case (Inr body')
    with that show ?thesis by (simp add: generate_answer_cases)
  qed
  show ?thesis
    apply (intro conjI impI)
         apply (erule upstream)
        apply (elim conjE, erule no_content, assumption)
       apply (elim conjE, rule no_text, assumption+)
      apply (elim conjE, rule answered, assumption+)
     apply (rule only)
    apply (erule same)
    done
qed

theorem generate_answer_errors_witness:
  "fst (generate_answer example_settings example_env example_world (of_ascii ''sky?'') []) =
     Inr (of_ascii ''Blue.'') \<and>
   fst (generate_answer example_settings empty_content_env example_world (of_ascii ''sky?'') []) =
     Inl (ValueError (of_ascii ''Unexpected response format'')) \<and>
   fst (generate_answer example_settings no_text_env example_world (of_ascii ''sky?'') []) =
     Inl (KeyError (of_ascii ''text'')) \<and>
   fst (generate_answer example_settings throttled_env example_world (of_ascii ''sky?'') []) =
     Inl (ClientError (of_ascii ''ThrottlingException''))"
proof -
  have a: "invoke_llm example_env (llm_request_of example_settings (of_ascii ''sky?'') []) =
      Inr \<lparr>content = Some [\<lparr>block_type = Some (of_ascii ''text''),
                               block_text = Some (of_ascii '' Blue. '')\<rparr>],
           stop_reason = Some (of_ascii ''end_turn''), usage_field = None\<rparr>"
    by (simp add: example_env_def)
  have b: "invoke_llm empty_content_env (llm_request_of example_settings (of_ascii ''sky?'') []) =
      Inr \<lparr>content = Some [], stop_reason = None, usage_field = None\<rparr>"
    by (simp add: empty_content_env_def)
  have c: "invoke_llm no_text_env (llm_request_of example_settings (of_ascii ''sky?'') []) =
      Inr \<lparr>content = Some [\<lparr>block_type = Some (of_ascii ''tool_use''), block_text = None\<rparr>],
           stop_reason = Some (of_ascii ''tool_use''), usage_field = None\<rparr>"
    by (simp add: no_text_env_def)
  have d: "invoke_llm throttled_env (llm_request_of example_settings (of_ascii ''sky?'') []) =
      Inl (ClientError (of_ascii ''ThrottlingException''))"
    by (simp add: throttled_env_def)
  have s: "py_strip (of_ascii '' Blue. '') = of_ascii ''Blue.''"
    by (simp add: py_strip_def py_isspace_def of_ascii_def)
  note th = generate_answer_errors [where s = example_settings and q = "of_ascii ''sky?''"
      and ctx = "[]" and w = example_world and e' = example_env and u = None and sr = None]
  have 1: "fst (generate_answer example_settings example_env example_world (of_ascii ''sky?'') []) =
     Inr (of_ascii ''Blue.'')"
    using th [where e = example_env and err = "OtherError []" and bs = "[]"
        and body = "\<lparr>content = Some [\<lparr>block_type = Some (of_ascii ''text''),
                               block_text = Some (of_ascii '' Blue. '')\<rparr>],
           stop_reason = Some (of_ascii ''end_turn''), usage_field = None\<rparr>"
        and b = "\<lparr>block_type = Some (of_ascii ''text''), block_text = Some (of_ascii '' Blue. '')\<rparr>"
        and t = "of_ascii '' Blue. ''",
        THEN conjunct2, THEN conjunct2, THEN conjunct2, THEN conjunct1] a s
    by simp
  have 2: "fst (generate_answer example_settings empty_content_env example_world
             (of_ascii ''sky?'') []) =
     Inl (ValueError (of_ascii ''Unexpected response format''))"
    using th [where e = empty_content_env and err = "OtherError []" and bs = "[]"
        and body = "\<lparr>content = Some [], stop_reason = None, usage_field = None\<rparr>"
        and b = "\<lparr>block_type = None, block_text = None\<rparr>" and t = "[]",
        THEN conjunct2, THEN conjunct1] b
    by simp
  have 3: "fst (generate_answer example_settings no_text_env example_world (of_ascii ''sky?'') []) =
     Inl (KeyError (of_ascii ''text''))"
    using th [where e = no_text_env and err = "OtherError []" and bs = "[]"
        and body = "\<lparr>content = Some [\<lparr>block_type = Some (of_ascii ''tool_use''),
                                        block_text = None\<rparr>],
           stop_reason = Some (of_ascii ''tool_use''), usage_field = None\<rparr>"
        and b = "\<lparr>block_type = Some (of_ascii ''tool_use''), block_text = None\<rparr>" and t = "[]",
        THEN conjunct2, THEN conjunct2, THEN conjunct1] c
    by simp
  have 4: "fst (generate_answer example_settings throttled_env example_world
             (of_ascii ''sky?'') []) =
     Inl (ClientError (of_ascii ''ThrottlingException''))"
    using th [where e = throttled_env and err = "ClientError (of_ascii ''ThrottlingException'')"
        and bs = "[]" and body = "\<lparr>content = None, stop_reason = None, usage_field = None\<rparr>"
        and b = "\<lparr>block_type = None, block_text = None\<rparr>" and t = "[]",
        THEN conjunct1] d
    by simp
  from 1 2 3 4 show ?thesis by (intro conjI)
qed

section \<open>Query Orchestrator: the phases of one query\<close>

lemma time_time_simps:
  "fst (time_time e w) = clock e (ticks w)"
  "ticks (snd (time_time e w)) = Suc (ticks w)"
  "embed_calls (snd (time_time e w)) = embed_calls w"
  "search_calls (snd (time_time e w)) = search_calls w"
  "answer_calls (snd (time_time e w)) = answer_calls w"
  by (simp_all add: time_time_def)

lemma utc_now_simps:
  "fst (utc_now e w) = utc_iso e (ticks w)"
  "ticks (snd (utc_now e w)) = Suc (ticks w)"
  "embed_calls (snd (utc_now e w)) = embed_calls w"
  "search_calls (snd (utc_now e w)) = search_calls w"
  "answer_calls (snd (utc_now e w)) = answer_calls w"
  by (simp_all add: utc_now_def)

lemma generate_embedding_fst:
  "fst (generate_embedding s e w text) =
     (case invoke_embed e (embed_model_id s) text of
        Inl err \<Rightarrow> Inl err
      | Inr body \<Rightarrow> (case embedding body of
                       None \<Rightarrow> Inl (KeyError (of_ascii ''embedding''))
                     | Some emb \<Rightarrow> Inr emb))"
  by (simp add: generate_embedding_def Let_def split_beta split: sum.splits option.splits)

lemma generate_embedding_frame:
  "embed_calls (snd (generate_embedding s e w text)) = embed_calls w @ [text]"
  "search_calls (snd (generate_embedding s e w text)) = search_calls w"
  "answer_calls (snd (generate_embedding s e w text)) = answer_calls w"
  by (simp_all add: generate_embedding_def Let_def split_beta time_time_def
        split: sum.splits option.splits)

lemma generate_embedding_ticks:
  "fst (generate_embedding s e w text) = Inr emb \<Longrightarrow>
     ticks (snd (generate_embedding s e w text)) = ticks w + 3"
  by (auto simp: generate_embedding_def Let_def split_beta time_time_def
        split: sum.splits option.splits if_splits)

lemma query_vectors_fst:
  "fst (query_vectors c e w emb k f t) =
     (case s3_query e (query_params_of c e emb k f) of
        Inl err \<Rightarrow> Inl err
      | Inr r \<Rightarrow> process_vectors t (response_vectors r) [])"
  by (simp add: query_vectors_def response_vectors_def Let_def split_beta
        split: sum.splits option.splits)

lemma query_vectors_frame:
  "embed_calls (snd (query_vectors c e w emb k f t)) = embed_calls w"
  "search_calls (snd (query_vectors c e w emb k f t)) =
     search_calls w @ [\<lparr>sc_top_k = k, sc_threshold = t, sc_filter = f\<rparr>]"
  "answer_calls (snd (query_vectors c e w emb k f t)) = answer_calls w"
  by (simp_all add: query_vectors_def Let_def split_beta time_time_def
        split: sum.splits option.splits)

lemma query_vectors_ticks:
  "fst (query_vectors c e w emb k f t) = Inr ms \<Longrightarrow>
     ticks (snd (query_vectors c e w emb k f t)) = ticks w + 5"
  by (auto simp: query_vectors_def Let_def split_beta time_time_def
        split: sum.splits option.splits if_splits)

lemma generate_answer_frame:
  "embed_calls (snd (generate_answer s e w q ctx)) = embed_calls w"
  "search_calls (snd (generate_answer s e w q ctx)) = search_calls w"
  "answer_calls (snd (generate_answer s e w q ctx)) = answer_calls w @ [(q, ctx)]"
  by (simp_all add: generate_answer_def Let_def split_beta time_time_def
        split: sum.splits option.splits list.splits)

lemma prepare_context_sources:
  "snd (prepare_context i ms parts srcs) = srcs @ map source_entry ms"
  by (induction ms arbitrary: i parts srcs) simp_all


lemma py_round_grid: "\<exists>k :: int. py_round x n = of_int k / 10 ^ n"
  by (simp add: py_round_def Let_def)

lemma py_round_close: "\<bar>py_round x n - x\<bar> \<le> 1 / (2 * 10 ^ n)"
proof -
  define y where "y = x * 10 ^ n"
  define f where "f = \<lfloor>y\<rfloor>"
  define k where "k = (if y - of_int f < 1 / 2 then f else if 1 / 2 < y - of_int f then f + 1
                       else if even f then f else f + 1)"
  have r: "py_round x n = of_int k / 10 ^ n"
    by (simp add: py_round_def Let_def y_def f_def k_def)
  have fl: "of_int f \<le> y" "y < of_int f + 1"
    by (simp_all add: f_def)
  have near: "\<bar>of_int k - y\<bar> \<le> 1 / 2"
    using fl by (auto simp: k_def)
  have "py_round x n - x = (of_int k - y) / 10 ^ n"
    by (simp add: r y_def field_simps)
  then have "\<bar>py_round x n - x\<bar> = \<bar>of_int k - y\<bar> / 10 ^ n"
    by simp
  also have "\<dots> \<le> (1 / 2) / 10 ^ n"
    using near by (intro divide_right_mono) simp_all
  finally show ?thesis by simp
qed

lemma process_query_embed_calls:
  "embed_calls (snd (process_query svc e w q mc th f)) = embed_calls w @ [q]"
  by (simp add: process_query_def Let_def split_beta search_similar_chunks_def
        time_time_simps utc_now_simps generate_embedding_frame query_vectors_frame
        generate_answer_frame
        split: sum.splits)

lemma process_query_search_calls:
  assumes "fst (generate_embedding (settings svc) e w q) = Inr emb"
  shows "search_calls (snd (process_query svc e w q mc th f)) =
           search_calls w @
             [\<lparr>sc_top_k = py_or mc (top_k (settings svc)),
               sc_threshold = py_or th (similarity_threshold (settings svc)),
               sc_filter = f\<rparr>]"
proof -
  have g: "fst (generate_embedding (settings svc) e w' q) = Inr emb" for w'
    using assms by (simp add: generate_embedding_fst)
  show ?thesis
    by (simp add: process_query_def Let_def split_beta search_similar_chunks_def g
        time_time_simps utc_now_simps generate_embedding_frame query_vectors_frame
        generate_answer_frame
        split: sum.splits)
qed


lemma process_query_no_results:
  assumes "fst (generate_embedding (settings svc) e w q) = Inr emb"
    and "fst (query_vectors (vector_client svc) e w emb (py_or mc (top_k (settings svc))) f
               (py_or th (similarity_threshold (settings svc)))) = Inr []"
  shows "fst (process_query svc e w q mc th f) =
           Inr \<lparr>answer = no_results_answer, query = q, sources = [],
                processing_time_ms =
                  py_round ((clock e (ticks w + 13) - clock e (ticks w)) * 1000) 2,
                chunks_found = 0, timestamp = utc_iso e (ticks w + 14),
                performance_breakdown = None\<rparr>"
    and "answer_calls (snd (process_query svc e w q mc th f)) = answer_calls w"
    and "ticks (snd (process_query svc e w q mc th f)) = ticks w + 15"
proof -
  have g: "fst (generate_embedding (settings svc) e w' q) = Inr emb" for w'
    using assms(1) by (simp add: generate_embedding_fst)
  have s: "fst (query_vectors (vector_client svc) e w' emb (py_or mc (top_k (settings svc))) f
               (py_or th (similarity_threshold (settings svc)))) = Inr []" for w'
    using assms(2) by (simp add: query_vectors_fst)
  note gt = generate_embedding_ticks [OF g]
  note st = query_vectors_ticks [OF s]
  show "fst (process_query svc e w q mc th f) =
           Inr \<lparr>answer = no_results_answer, query = q, sources = [],
                processing_time_ms =
                  py_round ((clock e (ticks w + 13) - clock e (ticks w)) * 1000) 2,
                chunks_found = 0, timestamp = utc_iso e (ticks w + 14),
                performance_breakdown = None\<rparr>"
    by (simp add: process_query_def Let_def split_beta search_similar_chunks_def g s gt st
        time_time_simps utc_now_simps eval_nat_numeral)
  show "answer_calls (snd (process_query svc e w q mc th f)) = answer_calls w"
    by (simp add: process_query_def Let_def split_beta search_similar_chunks_def g s
        time_time_simps utc_now_simps generate_embedding_frame query_vectors_frame)
  show "ticks (snd (process_query svc e w q mc th f)) = ticks w + 15"
    by (simp add: process_query_def Let_def split_beta search_similar_chunks_def g s gt st
        time_time_simps utc_now_simps)
qed

lemma process_query_sources:
  assumes "fst (process_query svc e w q mc th f) = Inr r"
  shows "\<exists>emb ms.
           fst (generate_embedding (settings svc) e w q) = Inr emb \<and>
           fst (query_vectors (vector_client svc) e w emb (py_or mc (top_k (settings svc))) f
                  (py_or th (similarity_threshold (settings svc)))) = Inr ms \<and>
           sources r = map source_entry ms \<and> chunks_found r = length ms"
proof -
  from assms obtain emb where g0: "fst (generate_embedding (settings svc) e w q) = Inr emb"
    by (cases "fst (generate_embedding (settings svc) e w q)")
       (simp_all add: process_query_def Let_def split_beta generate_embedding_fst)
  have g: "fst (generate_embedding (settings svc) e w' q) = Inr emb" for w'
    using g0 by (simp add: generate_embedding_fst)
  from assms obtain ms where s0:
    "fst (query_vectors (vector_client svc) e w emb (py_or mc (top_k (settings svc))) f
               (py_or th (similarity_threshold (settings svc)))) = Inr ms"
    by (cases "fst (query_vectors (vector_client svc) e w emb (py_or mc (top_k (settings svc))) f
               (py_or th (similarity_threshold (settings svc))))")
       (simp_all add: process_query_def Let_def split_beta search_similar_chunks_def g
          query_vectors_fst)
  have s: "fst (query_vectors (vector_client svc) e w' emb (py_or mc (top_k (settings svc))) f
               (py_or th (similarity_threshold (settings svc)))) = Inr ms" for w'
    using s0 by (simp add: query_vectors_fst)
  have "sources r = map source_entry ms \<and> chunks_found r = length ms"
    using assms
    by (auto simp: process_query_def Let_def split_beta search_similar_chunks_def g s
          prepare_context_sources split: sum.splits if_splits)
  with g0 s0 show ?thesis by (intro exI conjI) simp_all
qed


text \<open>
  The claim C3 as it is written asks \<open>processing_time_ms\<close> to equal the elapsed time. In
  the run below the clock advances by one microsecond per reading, 13 microseconds
  (0.013 ms) pass between the two readings, and the result reports 0.01.
\<close>

theorem no_results_time_counterexample:
  "fst (process_query example_service no_match_env example_world (of_ascii ''sky?'')
          None None None) =
     Inr \<lparr>answer = no_results_answer, query = of_ascii ''sky?'', sources = [],
          processing_time_ms = 1 / 100, chunks_found = 0,
          timestamp = of_ascii ''2025-01-01T00:00:00+00:00'',
          performance_breakdown = None\<rparr> \<and>
   (clock no_match_env 13 - clock no_match_env (ticks example_world)) * 1000 = 13 / 1000 \<and>
   (1 / 100 :: real) \<noteq> 13 / 1000"
proof -
  have g: "fst (generate_embedding (settings example_service) no_match_env example_world
                 (of_ascii ''sky?'')) = Inr [1, 0]"
    by (simp add: generate_embedding_fst no_match_env_def example_env_def)
  have s: "fst (query_vectors (vector_client example_service) no_match_env example_world [1, 0]
                 (py_or None (top_k (settings example_service))) None
                 (py_or None (similarity_threshold (settings example_service)))) = Inr []"
    by (simp add: query_vectors_fst no_match_env_def example_env_def response_vectors_def)
  have c: "clock no_match_env = (\<lambda>n. real n / 1000000)"
    "utc_iso no_match_env = (\<lambda>n. of_ascii ''2025-01-01T00:00:00+00:00'')"
    by (simp_all add: no_match_env_def example_env_def)
  have t: "ticks example_world = 0" by (simp add: example_world_def)
  have r: "py_round (13 / 1000) 2 = 1 / 100" by (simp add: py_round_def Let_def)
  show ?thesis
    using process_query_no_results(1) [OF g s] by (simp add: c t r)
qed

text \<open>
  Claim C3, as amended. When the Embedding Generator returns and retrieval returns no
  match, \<open>process_query\<close> returns the fixed answer, the query, no sources,
  \<open>chunks_found = 0\<close> and no breakdown; \<open>processing_time_ms\<close> is the time between the
  first clock reading of \<open>process_query\<close> and the reading taken for the result, in
  milliseconds and rounded to two decimal places; and the Answer Generator is not called.
\<close>

theorem no_results_short_circuit:
  assumes "fst (generate_embedding (settings svc) e w q) = Inr emb"
    and "fst (query_vectors (vector_client svc) e w emb (py_or mc (top_k (settings svc))) f
               (py_or th (similarity_threshold (settings svc)))) = Inr []"
  shows "fst (process_query svc e w q mc th f) =
           Inr \<lparr>answer = no_results_answer, query = q, sources = [],
                processing_time_ms =
                  py_round ((clock e (ticks w + 13) - clock e (ticks w)) * 1000) 2,
                chunks_found = 0, timestamp = utc_iso e (ticks w + 14),
                performance_breakdown = None\<rparr> \<and>
         answer_calls (snd (process_query svc e w q mc th f)) = answer_calls w \<and>
         \<bar>py_round ((clock e (ticks w + 13) - clock e (ticks w)) * 1000) 2 -
            (clock e (ticks w + 13) - clock e (ticks w)) * 1000\<bar> \<le> 1 / 200"
  using process_query_no_results(1,2) [OF assms]
    py_round_close [of "(clock e (ticks w + 13) - clock e (ticks w)) * 1000" 2]
  by simp

theorem no_results_short_circuit_witness:
  "fst (process_query example_service no_match_env example_world (of_ascii ''sky?'')
          None None None) =
     Inr \<lparr>answer = no_results_answer, query = of_ascii ''sky?'', sources = [],
          processing_time_ms = 1 / 100, chunks_found = 0,
          timestamp = of_ascii ''2025-01-01T00:00:00+00:00'',
          performance_breakdown = None\<rparr> \<and>
   answer_calls (snd (process_query example_service no_match_env example_world
                        (of_ascii ''sky?'') None None None)) = []"
proof -
  have g: "fst (generate_embedding (settings example_service) no_match_env example_world
                 (of_ascii ''sky?'')) = Inr [1, 0]"
    by (simp add: generate_embedding_fst no_match_env_def example_env_def)
  have s: "fst (query_vectors (vector_client example_service) no_match_env example_world [1, 0]
                 (py_or None (top_k (settings example_service))) None
                 (py_or None (similarity_threshold (settings example_service)))) = Inr []"
    by (simp add: query_vectors_fst no_match_env_def example_env_def response_vectors_def)
  have c: "clock no_match_env = (\<lambda>n. real n / 1000000)"
    "utc_iso no_match_env = (\<lambda>n. of_ascii ''2025-01-01T00:00:00+00:00'')"
    by (simp_all add: no_match_env_def example_env_def)
  have t: "ticks example_world = 0" "answer_calls example_world = []"
    by (simp_all add: example_world_def)
  have r: "py_round (13 / 1000) 2 = 1 / 100" by (simp add: py_round_def Let_def)
  show ?thesis
    using no_results_short_circuit [OF g s] by (simp add: c t r)
qed

text \<open>
  Claim C6. \<open>process_query\<close> calls the gateway with \<open>max_chunks or settings.top_k\<close> and
  \<open>similarity_threshold or settings.similarity_threshold\<close>: an absent value and a zero
  both give the settings default, any other value is used as supplied, and a call with 0
  or 0.0 is indistinguishable from a call without the value.
\<close>

theorem process_query_defaults:
  assumes "fst (generate_embedding (settings svc) e w q) = Inr emb"
  shows "search_calls (snd (process_query svc e w q mc th f)) =
           search_calls w @
             [\<lparr>sc_top_k = py_or mc (top_k (settings svc)),
               sc_threshold = py_or th (similarity_threshold (settings svc)),
               sc_filter = f\<rparr>] \<and>
         py_or None (top_k (settings svc)) = top_k (settings svc) \<and>
         py_or (Some 0) (top_k (settings svc)) = top_k (settings svc) \<and>
         (n \<noteq> 0 \<longrightarrow> py_or (Some n) (top_k (settings svc)) = n) \<and>
         py_or None (similarity_threshold (settings svc)) = similarity_threshold (settings svc) \<and>
         py_or (Some 0) (similarity_threshold (settings svc)) =
           similarity_threshold (settings svc) \<and>
         (t \<noteq> 0 \<longrightarrow> py_or (Some t) (similarity_threshold (settings svc)) = t) \<and>
         process_query svc e w q (Some 0) th f = process_query svc e w q None th f \<and>
         process_query svc e w q mc (Some 0) f = process_query svc e w q mc None f"
proof -
  have "process_query svc e w q (Some 0) th f = process_query svc e w q None th f"
    by (simp add: process_query_def py_or_def)
  moreover have "process_query svc e w q mc (Some 0) f = process_query svc e w q mc None f"
    by (simp add: process_query_def py_or_def)
  ultimately show ?thesis
    using process_query_search_calls [OF assms, of mc th f] by (simp add: py_or_def)
qed

theorem process_query_defaults_witness:
  "search_calls (snd (process_query example_service example_env example_world
                        (of_ascii ''sky?'') (Some 0) (Some 0) None)) =
     [\<lparr>sc_top_k = 6, sc_threshold = 1 / 2, sc_filter = None\<rparr>] \<and>
   search_calls (snd (process_query example_service example_env example_world
                        (of_ascii ''sky?'') (Some 3) None None)) =
     [\<lparr>sc_top_k = 3, sc_threshold = 1 / 2, sc_filter = None\<rparr>]"
proof -
  have g: "fst (generate_embedding (settings example_service) example_env example_world
                 (of_ascii ''sky?'')) = Inr [1, 0]"
    by (simp add: generate_embedding_fst example_env_def)
  have s: "top_k (settings example_service) = 6"
    "similarity_threshold (settings example_service) = 1 / 2"
    by (simp_all add: example_service_def new_RAGService_def example_settings_def)
  have w: "search_calls example_world = []" by (simp add: example_world_def)
  show ?thesis
    using process_query_defaults [OF g, of "Some 0" "Some 0" None, THEN conjunct1]
      process_query_defaults [OF g, of "Some 3" None None, THEN conjunct1]
    by (simp add: s w py_or_def)
qed

text \<open>
  The claim C7 as it is written asks the orchestrator never to embed an empty string.
  Called with the empty query, \<open>process_query\<close> calls the Embedding Generator with it.
\<close>

theorem orchestrator_embeds_empty_query_counterexample:
  "embed_calls (snd (process_query example_service example_env example_world []
                       None None None)) = [[]]"
  by (simp add: process_query_embed_calls example_world_def)

text \<open>
  Claim C7, as amended. At the boundary, a request whose query is missing or empty (or
  that breaks another constraint of \<open>QueryRequest\<close>) is answered with a validation error
  and nothing else happens: \<open>process_query\<close> is not called and no embedding call is made. A
  request that passes validation has a non-empty query, which is the text embedded.
  \<open>process_query\<close> itself makes no check: it hands whatever query it is given to the
  Embedding Generator.
\<close>

theorem empty_query_rejected_at_boundary:
  "(body_query b = None \<or> body_query b = Some [] \<longrightarrow>
      query_documents svc e w b = (Validation_Error, w)) \<and>
   (\<not> QueryRequest_valid b \<longrightarrow> query_documents svc e w b = (Validation_Error, w)) \<and>
   (QueryRequest_valid b \<longrightarrow>
      (\<exists>qt. body_query b = Some qt \<and> qt \<noteq> [] \<and>
            embed_calls (snd (query_documents svc e w b)) = embed_calls w @ [qt])) \<and>
   embed_calls (snd (process_query svc e w q mc th f)) = embed_calls w @ [q]"
proof -
  have a: "query_documents svc e w b = (Validation_Error, w)" if "\<not> QueryRequest_valid b"
    using that by (simp add: query_documents_def)
  have b: "\<not> QueryRequest_valid b" if "body_query b = None \<or> body_query b = Some []"
    using that by (auto simp: QueryRequest_valid_def)
  have c: "\<exists>qt. body_query b = Some qt \<and> qt \<noteq> [] \<and>
            embed_calls (snd (query_documents svc e w b)) = embed_calls w @ [qt]"
    if v: "QueryRequest_valid b"
  proof -
    from v obtain qt where qt0: "body_query b = Some qt" "1 \<le> length qt"
      by (cases "body_query b") (auto simp: QueryRequest_valid_def)
    from qt0(2) have "qt \<noteq> []" by auto
    note qt = qt0(1) this
    have "embed_calls (snd (query_documents svc e w b)) =
            embed_calls (snd (process_query svc e w qt (body_max_chunks b)
                                (body_similarity_threshold b) (body_metadata_filter b)))"
      using v qt by (simp add: query_documents_def split: prod.splits sum.splits)
    with qt show ?thesis by (simp add: process_query_embed_calls)
  qed
  from a b c show ?thesis by (simp add: process_query_embed_calls)
qed

theorem empty_query_rejected_at_boundary_witness:
  "query_documents example_service example_env example_world
     \<lparr>body_query = Some [], body_max_chunks = None, body_similarity_threshold = None,
      body_metadata_filter = None\<rparr> = (Validation_Error, example_world) \<and>
   embed_calls (snd (query_documents example_service example_env example_world
     \<lparr>body_query = Some (of_ascii ''sky?''), body_max_chunks = None,
      body_similarity_threshold = None, body_metadata_filter = None\<rparr>)) = [of_ascii ''sky?'']"
proof -
  have v: "QueryRequest_valid \<lparr>body_query = Some (of_ascii ''sky?''), body_max_chunks = None,
      body_similarity_threshold = None, body_metadata_filter = None\<rparr>"
    by (simp add: QueryRequest_valid_def of_ascii_def)
  have w: "embed_calls example_world = []" by (simp add: example_world_def)
  show ?thesis
    using empty_query_rejected_at_boundary [of
        "\<lparr>body_query = Some [], body_max_chunks = None, body_similarity_threshold = None,
          body_metadata_filter = None\<rparr>" example_service example_env example_world]
      empty_query_rejected_at_boundary [of
        "\<lparr>body_query = Some (of_ascii ''sky?''), body_max_chunks = None,
          body_similarity_threshold = None, body_metadata_filter = None\<rparr>"
        example_service example_env example_world] v w
    by simp
qed

section \<open>Query Orchestrator: the sources of a result\<close>

lemma length_of_ascii: "length (of_ascii s) = length s"
  by (simp add: of_ascii_def)

lemma generate_answer_ticks:
  "fst (generate_answer s e w q ctx) = Inr a \<Longrightarrow>
     ticks (snd (generate_answer s e w q ctx)) = ticks w + 3"
  by (auto simp: generate_answer_def Let_def split_beta time_time_def
        split: sum.splits option.splits list.splits if_splits)

lemma example_run:
  "fst (process_query example_service example_env example_world (of_ascii ''sky?'')
          None None None) = Inr example_result"
proof -
  have g: "fst (generate_embedding (settings example_service) example_env w
                 (of_ascii ''sky?'')) = Inr [1, 0]" for w
    by (simp add: generate_embedding_fst example_env_def)
  have s: "fst (query_vectors (vector_client example_service) example_env w [1, 0] 6 None (1 / 2)) =
     Inr [\<lparr>ident = of_ascii ''a'', score = 9 / 10,
           m_metadata = \<lparr>md_source = Some (of_ascii ''sky.txt''), md_chunk_index = Some 0,
                          md_source_text = Some (of_ascii ''The sky is blue.'')\<rparr>\<rparr>,
          \<lparr>ident = of_ascii ''c'', score = 1, m_metadata = empty_metadata\<rparr>]" for w
    by (simp add: query_vectors_fst example_env_def example_vectors_def response_vectors_def
          similarity_score_def Let_def)
  have a: "fst (generate_answer (settings example_service) example_env w q ctx) =
             Inr (of_ascii ''Blue.'')" for w q ctx
    by (simp add: generate_answer_cases example_env_def py_strip_def py_isspace_def of_ascii_def)
  have st: "top_k (settings example_service) = 6"
    "similarity_threshold (settings example_service) = 1 / 2"
    by (simp_all add: example_service_def new_RAGService_def example_settings_def)
  have r: "py_round (9 / 10) 4 = 9 / 10" "py_round 1 4 = 1" "py_round (9 / 500) 2 = 1 / 50"
    "py_round (1 / 250) 2 = 0" "py_round (3 / 500) 2 = 1 / 100"
    by (simp_all add: py_round_def Let_def)
  have c: "clock example_env = (\<lambda>n. real n / 1000000)"
    "utc_iso example_env = (\<lambda>n. of_ascii ''2025-01-01T00:00:00+00:00'')"
    by (simp_all add: example_env_def)
  have t: "ticks example_world = 0" by (simp add: example_world_def)
  have gt: "ticks (snd (generate_embedding (settings example_service) example_env w
                 (of_ascii ''sky?''))) = ticks w + 3" for w
    by (rule generate_embedding_ticks [OF g])
  have qt: "ticks (snd (query_vectors (vector_client example_service) example_env w [1, 0] 6 None (1 / 2))) = ticks w + 5" for w
    by (rule query_vectors_ticks [OF s])
  have at: "ticks (snd (generate_answer (settings example_service) example_env w q ctx)) =
              ticks w + 3" for w q ctx
    by (rule generate_answer_ticks [OF a])
  show ?thesis
    by (simp add: at process_query_def Let_def split_beta search_similar_chunks_def g s a st r c t
          gt qt py_or_def time_time_simps utc_now_simps source_entry_def chunk_text_of_def
          empty_metadata_def length_of_ascii example_result_def)
qed


text \<open>
  Claim C9. The source built for a match carries the score rounded to 4 decimal places (a
  multiple of 0.0001 within 0.00005 of the score) and, as preview, the chunk text itself
  when it has at most 200 characters and otherwise its first 200 characters followed by
  "..."; a chunk text of 250 characters gives a preview of 203. The sources of a result
  are these projections of the retrieved matches, in retrieval order.
\<close>

theorem source_projection:
  "src_similarity_score (source_entry m) = py_round (score m) 4 \<and>
   (\<exists>k :: int. src_similarity_score (source_entry m) = of_int k / 10 ^ 4) \<and>
   \<bar>src_similarity_score (source_entry m) - score m\<bar> \<le> 1 / 20000 \<and>
   (length (chunk_text_of m) \<le> 200 \<longrightarrow>
      src_text_preview (source_entry m) = chunk_text_of m) \<and>
   (200 < length (chunk_text_of m) \<longrightarrow>
      src_text_preview (source_entry m) = take 200 (chunk_text_of m) @ of_ascii ''...'') \<and>
   (length (chunk_text_of m) = 250 \<longrightarrow> length (src_text_preview (source_entry m)) = 203) \<and>
   (fst (process_query svc e w q mc th f) = Inr r \<longrightarrow>
      (\<exists>emb ms.
         fst (generate_embedding (settings svc) e w q) = Inr emb \<and>
         fst (query_vectors (vector_client svc) e w emb (py_or mc (top_k (settings svc))) f
                (py_or th (similarity_threshold (settings svc)))) = Inr ms \<and>
         sources r = map source_entry ms))"
proof -
  have a: "src_similarity_score (source_entry m) = py_round (score m) 4"
    by (simp add: source_entry_def Let_def)
  have b: "\<exists>k :: int. src_similarity_score (source_entry m) = of_int k / 10 ^ 4"
    unfolding a by (rule py_round_grid)
  have c: "\<bar>src_similarity_score (source_entry m) - score m\<bar> \<le> 1 / 20000"
    unfolding a using py_round_close [of "score m" 4] by simp
  have d: "src_text_preview (source_entry m) = chunk_text_of m"
    if "length (chunk_text_of m) \<le> 200"
    using that by (simp add: source_entry_def Let_def)
  have e: "src_text_preview (source_entry m) = take 200 (chunk_text_of m) @ of_ascii ''...''"
    if "200 < length (chunk_text_of m)"
    using that by (simp add: source_entry_def Let_def)
  have f: "length (src_text_preview (source_entry m)) = 203"
    if "length (chunk_text_of m) = 250"
    using that by (simp add: source_entry_def Let_def length_of_ascii)
  have g: "\<exists>emb ms.
         fst (generate_embedding (settings svc) e w q) = Inr emb \<and>
         fst (query_vectors (vector_client svc) e w emb (py_or mc (top_k (settings svc))) f
                (py_or th (similarity_threshold (settings svc)))) = Inr ms \<and>
         sources r = map source_entry ms"
    if "fst (process_query svc e w q mc th f) = Inr r"
    using process_query_sources [OF that] by blast
  show ?thesis
    apply (intro conjI impI)
          apply (rule a)
         apply (rule b)
        apply (rule c)
       apply (erule d)
      apply (erule e)
     apply (erule f)
    apply (erule g)
    done
qed

theorem source_projection_witness:
  "length (chunk_text_of long_match) = 250 \<and>
   length (src_text_preview (source_entry long_match)) = 203 \<and>
   src_text_preview (source_entry long_match) = replicate 200 97 @ of_ascii ''...'' \<and>
   src_similarity_score (source_entry long_match) = 1235 / 10000 \<and>
   src_text_preview (source_entry \<lparr>ident = of_ascii ''a'', score = 9 / 10,
       m_metadata = \<lparr>md_source = Some (of_ascii ''sky.txt''), md_chunk_index = Some 0,
                      md_source_text = Some (of_ascii ''The sky is blue.'')\<rparr>\<rparr>) =
     of_ascii ''The sky is blue.'' \<and>
   fst (process_query example_service example_env example_world (of_ascii ''sky?'')
          None None None) = Inr example_result \<and>
   sources example_result =
     map source_entry
       [\<lparr>ident = of_ascii ''a'', score = 9 / 10,
         m_metadata = \<lparr>md_source = Some (of_ascii ''sky.txt''), md_chunk_index = Some 0,
                        md_source_text = Some (of_ascii ''The sky is blue.'')\<rparr>\<rparr>,
        \<lparr>ident = of_ascii ''c'', score = 1, m_metadata = empty_metadata\<rparr>]"
proof -
  have l: "length (chunk_text_of long_match) = 250"
    by (simp add: chunk_text_of_def long_match_def)
  have t: "chunk_text_of long_match = replicate 250 97"
    by (simp add: chunk_text_of_def long_match_def)
  have r: "py_round (score long_match) 4 = 1235 / 10000"
    by (simp add: py_round_def Let_def long_match_def)
  have s: "length (chunk_text_of \<lparr>ident = of_ascii ''a'', score = 9 / 10,
       m_metadata = \<lparr>md_source = Some (of_ascii ''sky.txt''), md_chunk_index = Some 0,
                      md_source_text = Some (of_ascii ''The sky is blue.'')\<rparr>\<rparr>) \<le> 200"
    "chunk_text_of \<lparr>ident = of_ascii ''a'', score = 9 / 10,
       m_metadata = \<lparr>md_source = Some (of_ascii ''sky.txt''), md_chunk_index = Some 0,
                      md_source_text = Some (of_ascii ''The sky is blue.'')\<rparr>\<rparr> =
     of_ascii ''The sky is blue.''"
    by (simp_all add: chunk_text_of_def length_of_ascii)
  note long = source_projection [of long_match example_service example_env example_world
      "of_ascii ''sky?''" None None None example_result]
  note short = source_projection [of "\<lparr>ident = of_ascii ''a'', score = 9 / 10,
       m_metadata = \<lparr>md_source = Some (of_ascii ''sky.txt''), md_chunk_index = Some 0,
                      md_source_text = Some (of_ascii ''The sky is blue.'')\<rparr>\<rparr>"
      example_service example_env example_world "of_ascii ''sky?''" None None None
      example_result]
  have 1: "length (src_text_preview (source_entry long_match)) = 203"
    using long l by (simp add: length_of_ascii)
  have 2: "src_text_preview (source_entry long_match) = replicate 200 97 @ of_ascii ''...''"
    using long l t by (simp add: min_def length_of_ascii)
  have 3: "src_similarity_score (source_entry long_match) = 1235 / 10000"
    using long r by simp
  have 4: "src_text_preview (source_entry \<lparr>ident = of_ascii ''a'', score = 9 / 10,
       m_metadata = \<lparr>md_source = Some (of_ascii ''sky.txt''), md_chunk_index = Some 0,
                      md_source_text = Some (of_ascii ''The sky is blue.'')\<rparr>\<rparr>) =
     of_ascii ''The sky is blue.''"
    using short s by simp
  have g: "fst (generate_embedding (settings example_service) example_env example_world
                 (of_ascii ''sky?'')) = Inr [1, 0]"
    by (simp add: generate_embedding_fst example_env_def)
  have q: "fst (query_vectors (vector_client example_service) example_env example_world [1, 0]
                  (py_or None (top_k (settings example_service))) None
                  (py_or None (similarity_threshold (settings example_service)))) =
     Inr [\<lparr>ident = of_ascii ''a'', score = 9 / 10,
           m_metadata = \<lparr>md_source = Some (of_ascii ''sky.txt''), md_chunk_index = Some 0,
                          md_source_text = Some (of_ascii ''The sky is blue.'')\<rparr>\<rparr>,
          \<lparr>ident = of_ascii ''c'', score = 1, m_metadata = empty_metadata\<rparr>]"
    by (simp add: query_vectors_fst example_env_def example_vectors_def response_vectors_def
          similarity_score_def Let_def py_or_def example_service_def new_RAGService_def
          example_settings_def)
  have 5: "sources example_result =
     map source_entry
       [\<lparr>ident = of_ascii ''a'', score = 9 / 10,
         m_metadata = \<lparr>md_source = Some (of_ascii ''sky.txt''), md_chunk_index = Some 0,
                        md_source_text = Some (of_ascii ''The sky is blue.'')\<rparr>\<rparr>,
        \<lparr>ident = of_ascii ''c'', score = 1, m_metadata = empty_metadata\<rparr>]"
    using long example_run g q by simp
  from l 1 2 3 4 example_run 5 show ?thesis by (intro conjI)
qed

end
